theory Spec2Isabelle
  imports Main "HOL-Library.Multiset"
begin

section \<open>The schedule model (models/Schedule, in src/server/models/User.ts)\<close>

text \<open>
  The embedded documents of the Mongoose schema \<open>scheduleSchema\<close> are records. A document's
  \<open>_id\<close> is the field \<open>block_id\<close> (of a time block) or \<open>sched_id\<close> (of a schedule). An ObjectId
  is an abstract string here: every id of the model stands for a well-formed ObjectId (a
  request with a malformed id, which the routes answer with 500, is not modelled), and the
  id that Mongoose generates for a new document is carried by the input that creates it.
  The \<open>dayOfWeek\<close> of a request body is a JSON number (a string that passes \<open>isInt\<close> is not
  modelled). The timestamps \<open>createdAt\<close> and \<open>updatedAt\<close> are left out. A \<open>Date\<close> is its time
  value in milliseconds.
\<close>

datatype blockType = Study | Break | Exercise | Other

datatype priorityLevel = Low | Medium | High

datatype frequencyKind = Daily | Weekly | Monthly

datatype exceptionAction = Skip | Modify

record timeBlock =
  block_id :: string
  dayOfWeek :: nat
  startTime :: string
  endTime :: string
  subject :: string
  taskId :: "string option"
  blockType :: blockType
  priority :: priorityLevel
  block_notes :: "string option"

record recurrenceRule =
  isRecurring :: bool
  frequency :: frequencyKind
  startDate :: "int option"
  endDate :: "int option"
  daysOfWeek :: "nat list"

record modifiedTimeBlock =
  mod_startTime :: string
  mod_endTime :: string
  mod_subject :: string
  mod_type :: blockType

record scheduleException =
  exc_date :: int
  reason :: string
  action :: exceptionAction
  modifiedTimeBlocks :: "modifiedTimeBlock list"

record schedule =
  sched_id :: string
  userId :: string
  name :: string
  description :: "string option"
  isActive :: bool
  timeBlocks :: "timeBlock list"
  recurring :: recurrenceRule
  exceptions :: "scheduleException list"

subsection \<open>The runtime\<close>

text \<open>
  What the program takes from where it runs. The clock and the zone: \<open>today\<close> is the local
  time value of the start of the current local day (\<open>new Date()\<close> with the time of day set to
  0), and \<open>localTZA t\<close> is the offset in milliseconds of the server's zone at the local time
  value \<open>t\<close>, so that the time value of a local time \<open>t\<close> is \<open>t - localTZA t\<close>; a local time
  that a clock change skips is read with the offset before the change. The engine:
  \<open>legacyDate\<close> is the time value that the \<open>Date\<close> constructor gives a string outside the
  ECMAScript date-time format, and \<open>sortInconsistent\<close> is what \<open>Array.prototype.sort\<close> does
  when its comparator is not a consistent one; the language leaves both to the
  implementation. One request is handled within one local day.
\<close>

record runtime =
  today :: int
  localTZA :: "int \<Rightarrow> int"
  legacyDate :: "string \<Rightarrow> int option"
  sortInconsistent :: "(timeBlock \<Rightarrow> timeBlock \<Rightarrow> int option) \<Rightarrow> timeBlock list \<Rightarrow> timeBlock list"

definition utc_js :: "runtime \<Rightarrow> int \<Rightarrow> int" where
  "utc_js rt t = t - localTZA rt t"

subsection \<open>JavaScript numbers that may be NaN\<close>

text \<open>
  A time value is \<open>Some n\<close> or \<open>None\<close> for NaN. Every comparison with NaN is false, and
  a difference with NaN is NaN.
\<close>

fun gt_js :: "int option \<Rightarrow> int option \<Rightarrow> bool" where
  "gt_js (Some a) (Some b) = (a > b)"
| "gt_js _ _ = False"

fun sub_js :: "int option \<Rightarrow> int option \<Rightarrow> int option" where
  "sub_js (Some a) (Some b) = Some (a - b)"
| "sub_js _ _ = None"

subsection \<open>parseTime\<close>

text \<open>\<open>String.prototype.split\<close> with a one-character separator.\<close>

fun splitOn :: "char \<Rightarrow> string \<Rightarrow> string list" where
  "splitOn c [] = [[]]"
| "splitOn c (x # xs) =
     (if x = c then [] # splitOn c xs
      else (case splitOn c xs of p # ps \<Rightarrow> (x # p) # ps | [] \<Rightarrow> [[x]]))"

definition isDigit :: "char \<Rightarrow> bool" where
  "isDigit c = (c \<in> set ''0123456789'')"

definition digitVal :: "char \<Rightarrow> int" where
  "digitVal c = int (of_char c) - 48"

text \<open>
  \<open>String.prototype.trim\<close> removes white space and line terminators at both ends (here the
  ones with a code below 256); \<open>Number\<close> ignores the same characters around a numeral.
\<close>

definition isSpace :: "char \<Rightarrow> bool" where
  "isSpace c = (of_char c \<in> {9, 10, 11, 12, 13, 32, 160 :: nat})"

definition trim_js :: "string \<Rightarrow> string" where
  "trim_js s = rev (dropWhile isSpace (rev (dropWhile isSpace s)))"

text \<open>
  \<open>Number\<close> applied to a string: 0 for an empty or blank string, and the decimal value of
  one to nine digits with an optional sign; these values are small enough for \<open>setHours\<close>.
  Every component of a time that the schema's pattern admits is such a string. The other
  numerals (a fraction, an exponent, a radix prefix, \<open>Infinity\<close>, more digits) are not
  modelled: they give \<open>None\<close> here, as a string that is no numeral does.
\<close>

definition decimalDigits :: "string \<Rightarrow> int option" where
  "decimalDigits s =
     (if s \<noteq> [] \<and> length s \<le> 9 \<and> list_all isDigit s
      then Some (foldl (\<lambda>n c. 10 * n + digitVal c) 0 s)
      else None)"

definition Number_js :: "string \<Rightarrow> int option" where
  "Number_js s =
     (case trim_js s of
        [] \<Rightarrow> Some 0
      | c # r \<Rightarrow>
          if c = CHR ''+'' then decimalDigits r
          else if c = CHR ''-'' then map_option uminus (decimalDigits r)
          else decimalDigits (c # r))"

text \<open>
  \<open>parseTime\<close> takes today's date, sets its local hours and minutes (seconds and
  milliseconds 0) and returns the time value; \<open>setHours\<close> carries minutes beyond 59 into the
  hours.
\<close>

definition parseTime :: "runtime \<Rightarrow> string \<Rightarrow> int option" where
  "parseTime rt timeString =
     (case map Number_js (splitOn CHR '':'' timeString) of
        Some hours # Some minutes # _ \<Rightarrow>
          Some (utc_js rt (today rt + (hours * 60 + minutes) * 60000))
      | _ \<Rightarrow> None)"

subsection \<open>The overlap scan\<close>

text \<open>
  \<open>Array.prototype.sort\<close> calls the comparator and takes NaN as 0. The comparators of this
  program are differences of a key. When no difference within the array is NaN, or when
  every pair of the array is tied, the comparator is a consistent one: the sort is stable
  and its result is the one that this insertion sort returns, where an element moves
  behind another one only when the comparator's result is positive. Otherwise the result
  is the engine's.
\<close>

fun positive :: "int option \<Rightarrow> bool" where
  "positive (Some v) = (v > 0)"
| "positive None = False"

fun negative :: "int option \<Rightarrow> bool" where
  "negative (Some v) = (v < 0)"
| "negative None = False"

fun insertSorted :: "('a \<Rightarrow> 'a \<Rightarrow> int option) \<Rightarrow> 'a \<Rightarrow> 'a list \<Rightarrow> 'a list" where
  "insertSorted cmp x [] = [x]"
| "insertSorted cmp x (y # ys) =
     (if positive (cmp x y) then y # insertSorted cmp x ys else x # y # ys)"

definition stableSort :: "('a \<Rightarrow> 'a \<Rightarrow> int option) \<Rightarrow> 'a list \<Rightarrow> 'a list" where
  "stableSort cmp xs = foldr (insertSorted cmp) xs []"

definition noNaN :: "('a \<Rightarrow> 'a \<Rightarrow> int option) \<Rightarrow> 'a list \<Rightarrow> bool" where
  "noNaN cmp xs = list_all (\<lambda>x. list_all (\<lambda>y. cmp x y \<noteq> None) xs) xs"

definition allTied :: "('a \<Rightarrow> 'a \<Rightarrow> int option) \<Rightarrow> 'a list \<Rightarrow> bool" where
  "allTied cmp xs =
     list_all (\<lambda>x. list_all (\<lambda>y. \<not> positive (cmp x y) \<and> \<not> negative (cmp x y)) xs) xs"

definition sort_js ::
  "(('a \<Rightarrow> 'a \<Rightarrow> int option) \<Rightarrow> 'a list \<Rightarrow> 'a list) \<Rightarrow> ('a \<Rightarrow> 'a \<Rightarrow> int option) \<Rightarrow> 'a list \<Rightarrow> 'a list" where
  "sort_js engineSort cmp xs =
     (if noNaN cmp xs \<or> allTied cmp xs then stableSort cmp xs else engineSort cmp xs)"

text \<open>
  \<open>blocksByDay\<close> is an object keyed by \<open>dayOfWeek\<close>; \<open>for (const day in blocksByDay)\<close> visits
  integer keys in ascending order, so the object is an association list kept in that order
  (a day that reaches the scan has passed the validators or the schema and is at most 6).
\<close>

fun pushBlock :: "timeBlock \<Rightarrow> (nat \<times> timeBlock list) list \<Rightarrow> (nat \<times> timeBlock list) list" where
  "pushBlock b [] = [(dayOfWeek b, [b])]"
| "pushBlock b ((d, bs) # rest) =
     (if dayOfWeek b = d then (d, bs @ [b]) # rest
      else if dayOfWeek b < d then (dayOfWeek b, [b]) # (d, bs) # rest
      else (d, bs) # pushBlock b rest)"

definition blocksByDay :: "timeBlock list \<Rightarrow> (nat \<times> timeBlock list) list" where
  "blocksByDay ts = foldl (\<lambda>m b. pushBlock b m) [] ts"

text \<open>
  The scan is written three times in the source (in \<open>hasConflicts\<close> and in two routes); the
  copies differ only in how a time string becomes a number, the parameter \<open>tm\<close>.
\<close>

definition startCmp :: "(string \<Rightarrow> int option) \<Rightarrow> timeBlock \<Rightarrow> timeBlock \<Rightarrow> int option" where
  "startCmp tm a b = sub_js (tm (startTime a)) (tm (startTime b))"

fun adjacentOverlap :: "(string \<Rightarrow> int option) \<Rightarrow> timeBlock list \<Rightarrow> (timeBlock \<times> timeBlock) option" where
  "adjacentOverlap tm (x # y # rest) =
     (if gt_js (tm (endTime x)) (tm (startTime y)) then Some (x, y)
      else adjacentOverlap tm (y # rest))"
| "adjacentOverlap tm _ = None"

fun firstOverlap ::
  "runtime \<Rightarrow> (string \<Rightarrow> int option) \<Rightarrow> (nat \<times> timeBlock list) list \<Rightarrow> (nat \<times> timeBlock \<times> timeBlock) option" where
  "firstOverlap rt tm [] = None"
| "firstOverlap rt tm ((day, bs) # rest) =
     (case adjacentOverlap tm (sort_js (sortInconsistent rt) (startCmp tm) bs) of
        Some (x, y) \<Rightarrow> Some (day, x, y)
      | None \<Rightarrow> firstOverlap rt tm rest)"

definition hasConflicts :: "runtime \<Rightarrow> schedule \<Rightarrow> bool" where
  "hasConflicts rt s = (firstOverlap rt (parseTime rt) (blocksByDay (timeBlocks s)) \<noteq> None)"

subsection \<open>Schema validation and the instance methods\<close>

text \<open>\<open>trim: true\<close> is a setter: it runs when a value is assigned to a document.\<close>

text \<open>The pattern \<open>/^([0-1]?[0-9]|2[0-3]):[0-5][0-9]$/\<close> of the schema and of the routes.\<close>

fun timePattern :: "string \<Rightarrow> bool" where
  "timePattern [h, c, m1, m2] =
     (isDigit h \<and> c = CHR '':'' \<and> m1 \<in> set ''012345'' \<and> isDigit m2)"
| "timePattern [h1, h2, c, m1, m2] =
     (((h1 \<in> set ''01'' \<and> isDigit h2) \<or> (h1 = CHR ''2'' \<and> h2 \<in> set ''0123''))
      \<and> c = CHR '':'' \<and> m1 \<in> set ''012345'' \<and> isDigit m2)"
| "timePattern _ = False"

text \<open>
  The validators that the schema declares: \<open>required\<close> (a string must be non-empty),
  \<open>min\<close>/\<open>max\<close>, \<open>match\<close> (which lets the empty string pass). The \<open>enum\<close> fields are
  datatypes.
\<close>

definition blockSchemaOk :: "timeBlock \<Rightarrow> bool" where
  "blockSchemaOk b =
     (dayOfWeek b \<le> 6 \<and> timePattern (startTime b) \<and> timePattern (endTime b) \<and> subject b \<noteq> [])"

definition recurringSchemaOk :: "recurrenceRule \<Rightarrow> bool" where
  "recurringSchemaOk r = (startDate r \<noteq> None \<and> list_all (\<lambda>d. d \<le> 6) (daysOfWeek r))"

definition matchOrEmpty :: "string \<Rightarrow> bool" where
  "matchOrEmpty t = (t = [] \<or> timePattern t)"

definition exceptionSchemaOk :: "scheduleException \<Rightarrow> bool" where
  "exceptionSchemaOk e =
     (reason e \<noteq> [] \<and>
      list_all (\<lambda>m. matchOrEmpty (mod_startTime m) \<and> matchOrEmpty (mod_endTime m)) (modifiedTimeBlocks e))"

definition schemaOk :: "schedule \<Rightarrow> bool" where
  "schemaOk s =
     (name s \<noteq> [] \<and> list_all blockSchemaOk (timeBlocks s) \<and> recurringSchemaOk (recurring s)
      \<and> list_all exceptionSchemaOk (exceptions s))"

text \<open>Casting a plain object to a time-block subdocument applies the setters.\<close>

definition castBlock :: "timeBlock \<Rightarrow> timeBlock" where
  "castBlock b = b\<lparr>subject := trim_js (subject b), block_notes := map_option trim_js (block_notes b)\<rparr>"

text \<open>
  The collection maps an \<open>_id\<close> to its document. \<open>save\<close> validates the document and writes
  it; a rejected promise is \<open>Inl\<close>.
\<close>

type_synonym db = "string \<rightharpoonup> schedule"

datatype saveError = ValidationFailed | DuplicateKey

definition save :: "db \<Rightarrow> schedule \<Rightarrow> saveError + (schedule \<times> db)" where
  "save store s = (if schemaOk s then Inr (s, store(sched_id s \<mapsto> s)) else Inl ValidationFailed)"

definition addTimeBlock :: "db \<Rightarrow> schedule \<Rightarrow> timeBlock \<Rightarrow> saveError + (schedule \<times> db)" where
  "addTimeBlock store s timeBlock = save store (s\<lparr>timeBlocks := timeBlocks s @ [castBlock timeBlock]\<rparr>)"

definition removeTimeBlock :: "db \<Rightarrow> schedule \<Rightarrow> string \<Rightarrow> saveError + (schedule \<times> db)" where
  "removeTimeBlock store s blockId =
     save store (s\<lparr>timeBlocks := filter (\<lambda>block. block_id block \<noteq> blockId) (timeBlocks s)\<rparr>)"

definition toggleActive :: "db \<Rightarrow> schedule \<Rightarrow> saveError + (schedule \<times> db)" where
  "toggleActive store s = save store (s\<lparr>isActive := \<not> isActive s\<rparr>)"

section \<open>The schedule routes (routes/schedules, in src/unnamed/part_001)\<close>

text \<open>
  A request is handled for an authenticated user (\<open>req.user.id\<close>); the handler returns the
  response and the collection after it.
\<close>

datatype response =
    ValidationErrors "string list"
  | OverlapError nat timeBlock timeBlock
  | Created schedule
  | Ok schedule
  | OkNull
  | OkConflicts bool
  | NotFound
  | ServerError

text \<open>
  The 400 response of a failed validation carries the messages of the failed validators;
  the 400 response of the overlap scan carries the day of the message
  \<open>Time blocks overlap on day d\<close> and the two \<open>conflictingBlocks\<close>.
\<close>

record createBody =
  cb_name :: string
  cb_description :: "string option"
  cb_timeBlocks :: "timeBlock list"
  cb_recurring :: recurrenceRule

record updateBody =
  ub_name :: "string option"
  ub_description :: "string option"
  ub_timeBlocks :: "timeBlock list option"
  ub_recurring :: "recurrenceRule option"
  ub_isActive :: "bool option"

text \<open>
  The routes compare \<open>new Date(`2000-01-01T${t}:00`)\<close>. With a time \<open>t\<close> of two digits, a
  colon and two digits (hour at most 23 and minute at most 59, or 24:00) the string is in
  the ECMAScript date-time format and denotes that local time of 2000-01-01. For any
  other string the result is the engine's. The times that the routes' pattern admits and
  that are not in the format have a one-digit hour; a string that the pattern rejects
  never reaches this function.
\<close>

definition day2000 :: int where
  "day2000 = 946684800000"

fun isoTime :: "runtime \<Rightarrow> string \<Rightarrow> int option" where
  "isoTime rt [h1, h2, c, m1, m2] =
     (let hh = 10 * digitVal h1 + digitVal h2; mm = 10 * digitVal m1 + digitVal m2
      in if isDigit h1 \<and> isDigit h2 \<and> c = CHR '':'' \<and> isDigit m1 \<and> isDigit m2
            \<and> ((hh \<le> 23 \<and> mm \<le> 59) \<or> (hh = 24 \<and> mm = 0))
         then Some (utc_js rt (day2000 + (hh * 60 + mm) * 60000))
         else legacyDate rt [h1, h2, c, m1, m2])"
| "isoTime rt t = legacyDate rt t"

definition blockValidators :: "timeBlock list \<Rightarrow> string list" where
  "blockValidators tbs =
     concat (map (\<lambda>b. if dayOfWeek b \<le> 6 then [] else [''Day of week must be 0-6'']) tbs) @
     concat (map (\<lambda>b. if timePattern (startTime b) then [] else [''Start time must be in HH:MM format'']) tbs) @
     concat (map (\<lambda>b. if timePattern (endTime b) then [] else [''End time must be in HH:MM format'']) tbs) @
     concat (map (\<lambda>b. if subject b \<noteq> [] then [] else [''Subject is required for each time block'']) tbs)"

definition createValidators :: "createBody \<Rightarrow> string list" where
  "createValidators body =
     (if cb_name body \<noteq> [] then [] else [''Schedule name is required'']) @
     (if 1 \<le> length (cb_timeBlocks body) then [] else [''At least one time block is required'']) @
     blockValidators (cb_timeBlocks body) @
     (if startDate (cb_recurring body) \<noteq> None then [] else [''Start date must be a valid date''])"

text \<open>\<open>new Schedule({userId, name, description, timeBlocks, recurring})\<close>: setters and defaults.\<close>

definition newSchedule :: "string \<Rightarrow> string \<Rightarrow> createBody \<Rightarrow> schedule" where
  "newSchedule newId user body =
     \<lparr>sched_id = newId, userId = user, name = trim_js (cb_name body),
      description = map_option trim_js (cb_description body), isActive = True,
      timeBlocks = map castBlock (cb_timeBlocks body), recurring = cb_recurring body,
      exceptions = []\<rparr>"

text \<open>\<open>POST /api/schedules\<close>. Saving a new document inserts it; an \<open>_id\<close> already in use is an error.\<close>

definition createSchedule ::
  "runtime \<Rightarrow> db \<Rightarrow> string \<Rightarrow> string \<Rightarrow> createBody \<Rightarrow> response \<times> db" where
  "createSchedule rt store user newId body =
     (let errors = createValidators body in
      if errors \<noteq> [] then (ValidationErrors errors, store)
      else case firstOverlap rt (isoTime rt) (blocksByDay (cb_timeBlocks body)) of
        Some (day, x, y) \<Rightarrow> (OverlapError day x y, store)
      | None \<Rightarrow>
          (case (if store newId \<noteq> None then Inl DuplicateKey
                 else save store (newSchedule newId user body)) of
             Inl e \<Rightarrow> (ServerError, store)
           | Inr (s, store') \<Rightarrow> (Created s, store')))"

definition findOne :: "db \<Rightarrow> string \<Rightarrow> string \<Rightarrow> schedule option" where
  "findOne store ident user =
     (case store ident of
        Some s \<Rightarrow> if userId s = user then Some s else None
      | None \<Rightarrow> None)"

definition updateValidators :: "updateBody \<Rightarrow> string list" where
  "updateValidators body =
     (case ub_name body of Some n \<Rightarrow> if n \<noteq> [] then [] else [''Schedule name cannot be empty''] | None \<Rightarrow> []) @
     (case ub_timeBlocks body of
        Some tbs \<Rightarrow> (if 1 \<le> length tbs then [] else [''At least one time block is required'']) @ blockValidators tbs
      | None \<Rightarrow> [])"

text \<open>
  \<open>findByIdAndUpdate(id, {$set: req.body}, {new: true, runValidators: true})\<close>: the supplied
  fields are cast and validated, then replace the stored ones; the other fields stay.
\<close>

definition setOk :: "updateBody \<Rightarrow> bool" where
  "setOk body =
     ((case ub_name body of Some n \<Rightarrow> trim_js n \<noteq> [] | None \<Rightarrow> True) \<and>
      (case ub_timeBlocks body of Some tbs \<Rightarrow> list_all blockSchemaOk (map castBlock tbs) | None \<Rightarrow> True) \<and>
      (case ub_recurring body of Some r \<Rightarrow> recurringSchemaOk r | None \<Rightarrow> True))"

definition applySet :: "schedule \<Rightarrow> updateBody \<Rightarrow> schedule" where
  "applySet s body =
     s\<lparr>name := (case ub_name body of Some n \<Rightarrow> trim_js n | None \<Rightarrow> name s),
       description := (case ub_description body of Some d \<Rightarrow> Some (trim_js d) | None \<Rightarrow> description s),
       timeBlocks := (case ub_timeBlocks body of Some tbs \<Rightarrow> map castBlock tbs | None \<Rightarrow> timeBlocks s),
       recurring := (case ub_recurring body of Some r \<Rightarrow> r | None \<Rightarrow> recurring s),
       isActive := (case ub_isActive body of Some a \<Rightarrow> a | None \<Rightarrow> isActive s)\<rparr>"

definition findByIdAndUpdate :: "db \<Rightarrow> string \<Rightarrow> updateBody \<Rightarrow> saveError + (schedule option \<times> db)" where
  "findByIdAndUpdate store ident body =
     (if \<not> setOk body then Inl ValidationFailed
      else case store ident of
        None \<Rightarrow> Inr (None, store)
      | Some s \<Rightarrow> Inr (Some (applySet s body), store(ident \<mapsto> applySet s body)))"

text \<open>\<open>PUT /api/schedules/:id\<close>.\<close>

definition updateSchedule ::
  "runtime \<Rightarrow> db \<Rightarrow> string \<Rightarrow> string \<Rightarrow> updateBody \<Rightarrow> response \<times> db" where
  "updateSchedule rt store user ident body =
     (let errors = updateValidators body in
      if errors \<noteq> [] then (ValidationErrors errors, store)
      else case findOne store ident user of
        None \<Rightarrow> (NotFound, store)
      | Some schedule \<Rightarrow>
          (case (case ub_timeBlocks body of
                   Some tbs \<Rightarrow> firstOverlap rt (isoTime rt) (blocksByDay tbs)
                 | None \<Rightarrow> None) of
             Some (day, x, y) \<Rightarrow> (OverlapError day x y, store)
           | None \<Rightarrow>
               (case findByIdAndUpdate store ident body of
                  Inl e \<Rightarrow> (ServerError, store)
                | Inr (Some updatedSchedule, store') \<Rightarrow> (Ok updatedSchedule, store')
                | Inr (None, store') \<Rightarrow> (OkNull, store'))))"

text \<open>\<open>PUT /api/schedules/:id/toggle\<close>.\<close>

definition toggleRoute :: "db \<Rightarrow> string \<Rightarrow> string \<Rightarrow> response \<times> db" where
  "toggleRoute store user ident =
     (case findOne store ident user of
        None \<Rightarrow> (NotFound, store)
      | Some schedule \<Rightarrow>
          (case toggleActive store schedule of
             Inl e \<Rightarrow> (ServerError, store)
           | Inr (s, store') \<Rightarrow> (Ok s, store')))"

text \<open>\<open>PUT /api/schedules/:id/time-blocks\<close>; the body is the new time block.\<close>

definition addBlockValidators :: "timeBlock \<Rightarrow> string list" where
  "addBlockValidators b =
     (if dayOfWeek b \<le> 6 then [] else [''Day of week must be 0-6'']) @
     (if timePattern (startTime b) then [] else [''Start time must be in HH:MM format'']) @
     (if timePattern (endTime b) then [] else [''End time must be in HH:MM format'']) @
     (if subject b \<noteq> [] then [] else [''Subject is required''])"

definition addTimeBlockRoute :: "db \<Rightarrow> string \<Rightarrow> string \<Rightarrow> timeBlock \<Rightarrow> response \<times> db" where
  "addTimeBlockRoute store user ident body =
     (let errors = addBlockValidators body in
      if errors \<noteq> [] then (ValidationErrors errors, store)
      else case findOne store ident user of
        None \<Rightarrow> (NotFound, store)
      | Some schedule \<Rightarrow>
          (case addTimeBlock store schedule body of
             Inl e \<Rightarrow> (ServerError, store)
           | Inr (s, store') \<Rightarrow> (Ok s, store')))"

text \<open>\<open>DELETE /api/schedules/:id/time-blocks/:blockId\<close>.\<close>

definition removeTimeBlockRoute :: "db \<Rightarrow> string \<Rightarrow> string \<Rightarrow> string \<Rightarrow> response \<times> db" where
  "removeTimeBlockRoute store user ident blockId =
     (case findOne store ident user of
        None \<Rightarrow> (NotFound, store)
      | Some schedule \<Rightarrow>
          (case removeTimeBlock store schedule blockId of
             Inl e \<Rightarrow> (ServerError, store)
           | Inr (s, store') \<Rightarrow> (Ok s, store')))"

text \<open>\<open>GET /api/schedules/:id/conflicts\<close>.\<close>

definition conflictsRoute :: "runtime \<Rightarrow> db \<Rightarrow> string \<Rightarrow> string \<Rightarrow> response \<times> db" where
  "conflictsRoute rt store user ident =
     (case findOne store ident user of
        None \<Rightarrow> (NotFound, store)
      | Some schedule \<Rightarrow> (OkConflicts (hasConflicts rt schedule), store))"

section \<open>Node.js\<close>

text \<open>
  The server runs on Node.js, whose engine is V8. After the \<open>T\<close> of a date-time string V8
  accepts only a two-digit hour, so a time with a one-digit hour gives an invalid Date,
  whose time value is NaN.
\<close>

definition v8Date :: "string \<Rightarrow> int option" where
  "v8Date t = None"

text \<open>
  V8 sorts an array of fewer than 64 elements as one run: \<open>CountAndMakeRun\<close> takes the
  longest prefix that is ascending, or strictly descending and then reversed, and
  \<open>BinaryInsertionSort\<close> inserts each later element where a binary search of the sorted
  prefix puts it. (Longer arrays are sorted in several runs that are merged; they are
  not modelled.)
\<close>

fun runTail :: "('a \<Rightarrow> 'a \<Rightarrow> int option) \<Rightarrow> bool \<Rightarrow> 'a \<Rightarrow> 'a list \<Rightarrow> nat" where
  "runTail cmp isDescending previousElement [] = 0"
| "runTail cmp isDescending previousElement (currentElement # rest) =
     (if isDescending = negative (cmp currentElement previousElement)
      then Suc (runTail cmp isDescending currentElement rest)
      else 0)"

definition countAndMakeRun :: "('a \<Rightarrow> 'a \<Rightarrow> int option) \<Rightarrow> 'a list \<Rightarrow> 'a list \<times> 'a list" where
  "countAndMakeRun cmp xs =
     (case xs of
        elementHigh # elementLow # rest \<Rightarrow>
          (let isDescending = negative (cmp elementLow elementHigh);
               runLength = 2 + runTail cmp isDescending elementLow rest
           in (if isDescending then rev (take runLength xs) else take runLength xs,
               drop runLength xs))
      | _ \<Rightarrow> (xs, []))"

function binarySearch :: "('a \<Rightarrow> 'a \<Rightarrow> int option) \<Rightarrow> 'a \<Rightarrow> 'a list \<Rightarrow> nat \<Rightarrow> nat \<Rightarrow> nat" where
  "binarySearch cmp pivot run left right =
     (if left < right
      then (let mid = left + (right - left) div 2
            in if negative (cmp pivot (run ! mid)) then binarySearch cmp pivot run left mid
               else binarySearch cmp pivot run (mid + 1) right)
      else left)"
  by pat_completeness auto
termination
  by (relation "measure (\<lambda>(cmp, pivot, run, left, right). right - left)") auto

fun binaryInsertionSort :: "('a \<Rightarrow> 'a \<Rightarrow> int option) \<Rightarrow> 'a list \<Rightarrow> 'a list \<Rightarrow> 'a list" where
  "binaryInsertionSort cmp run [] = run"
| "binaryInsertionSort cmp run (pivot # rest) =
     (let left = binarySearch cmp pivot run 0 (length run)
      in binaryInsertionSort cmp (take left run @ pivot # drop left run) rest)"

definition v8Sort :: "('a \<Rightarrow> 'a \<Rightarrow> int option) \<Rightarrow> 'a list \<Rightarrow> 'a list" where
  "v8Sort cmp xs = (case countAndMakeRun cmp xs of (run, rest) \<Rightarrow> binaryInsertionSort cmp run rest)"

text \<open>
  Two servers on 2026-03-08. One is in a zone without clock changes (UTC). The other is in
  \<open>America/New_York\<close>, where on that day the clocks go from 02:00 to 03:00: the offset is
  -5 h for the local times before 03:00 (as it is on 2000-01-01) and -4 h from 03:00 on.
\<close>

definition utcServer :: runtime where
  "utcServer =
     \<lparr>today = 1772928000000, localTZA = (\<lambda>t. 0), legacyDate = v8Date, sortInconsistent = v8Sort\<rparr>"

definition newYorkServer :: runtime where
  "newYorkServer =
     \<lparr>today = 1772928000000,
      localTZA = (\<lambda>t. if t < 1772928000000 + 3 * 3600000 then - 18000000 else - 14400000),
      legacyDate = v8Date, sortInconsistent = v8Sort\<rparr>"

section \<open>Notions used by the properties\<close>

text \<open>
  The time of day that a time string denotes, in minutes after 00:00, for the strings of
  the pattern; a time is before another one when its time of day is smaller. A block has
  positive duration when its start is before its end, and two blocks overlap when each
  one starts before the other one ends (open intervals).
\<close>

fun spec_timeOfDay :: "string \<Rightarrow> int option" where
  "spec_timeOfDay [h, c, m1, m2] =
     (if timePattern [h, c, m1, m2]
      then Some (digitVal h * 60 + (10 * digitVal m1 + digitVal m2)) else None)"
| "spec_timeOfDay [h1, h2, c, m1, m2] =
     (if timePattern [h1, h2, c, m1, m2]
      then Some ((10 * digitVal h1 + digitVal h2) * 60 + (10 * digitVal m1 + digitVal m2)) else None)"
| "spec_timeOfDay _ = None"

definition spec_before :: "string \<Rightarrow> string \<Rightarrow> bool" where
  "spec_before t u = gt_js (spec_timeOfDay u) (spec_timeOfDay t)"

definition spec_positiveDuration :: "timeBlock \<Rightarrow> bool" where
  "spec_positiveDuration b = spec_before (startTime b) (endTime b)"

definition spec_overlap :: "timeBlock \<Rightarrow> timeBlock \<Rightarrow> bool" where
  "spec_overlap a b = (spec_before (startTime a) (endTime b) \<and> spec_before (startTime b) (endTime a))"

text \<open>
  The same two notions as the scan sees them, through a time function \<open>tm\<close> and JavaScript's
  comparison.
\<close>

definition positiveDuration :: "(string \<Rightarrow> int option) \<Rightarrow> timeBlock \<Rightarrow> bool" where
  "positiveDuration tm b = gt_js (tm (endTime b)) (tm (startTime b))"

definition overlap :: "(string \<Rightarrow> int option) \<Rightarrow> timeBlock \<Rightarrow> timeBlock \<Rightarrow> bool" where
  "overlap tm a b = (gt_js (tm (endTime b)) (tm (startTime a)) \<and> gt_js (tm (endTime a)) (tm (startTime b)))"

definition hasKey :: "(string \<Rightarrow> int option) \<Rightarrow> timeBlock \<Rightarrow> bool" where
  "hasKey tm b = (tm (startTime b) \<noteq> None)"

definition byStart :: "(string \<Rightarrow> int option) \<Rightarrow> timeBlock \<Rightarrow> timeBlock \<Rightarrow> bool" where
  "byStart tm a b = (the (tm (startTime a)) \<le> the (tm (startTime b)))"

definition keysOk :: "(nat \<times> timeBlock list) list \<Rightarrow> bool" where
  "keysOk m = sorted_wrt (<) (map fst m)"

text \<open>A local day, starting at the local time value \<open>d\<close>, on which the zone's offset does not change.\<close>

definition steadyDay :: "runtime \<Rightarrow> int \<Rightarrow> bool" where
  "steadyDay rt d = (\<forall>m. 0 \<le> m \<and> m < 1440 \<longrightarrow> localTZA rt (d + m * 60000) = localTZA rt d)"

text \<open>
  The collection is well formed when every stored document satisfies the schema and is
  stored under its own \<open>_id\<close>.
\<close>

definition storeOk :: "db \<Rightarrow> bool" where
  "storeOk store = (\<forall>ident s. store ident = Some s \<longrightarrow> schemaOk s \<and> sched_id s = ident)"

text \<open>Example documents and request bodies.\<close>

definition mkBlock :: "string \<Rightarrow> nat \<Rightarrow> string \<Rightarrow> string \<Rightarrow> timeBlock" where
  "mkBlock i d s e =
     \<lparr>block_id = i, dayOfWeek = d, startTime = s, endTime = e, subject = ''Math'',
      taskId = None, blockType = Study, priority = Medium, block_notes = None\<rparr>"

definition weekly :: recurrenceRule where
  "weekly = \<lparr>isRecurring = True, frequency = Weekly, startDate = Some 1704067200000,
             endDate = None, daysOfWeek = []\<rparr>"

definition mkSchedule :: "timeBlock list \<Rightarrow> schedule" where
  "mkSchedule tbs =
     \<lparr>sched_id = ''s1'', userId = ''u1'', name = ''Plan'', description = None, isActive = True,
      timeBlocks = tbs, recurring = weekly, exceptions = []\<rparr>"

definition mkBody :: "timeBlock list \<Rightarrow> createBody" where
  "mkBody tbs = \<lparr>cb_name = ''Plan'', cb_description = None, cb_timeBlocks = tbs, cb_recurring = weekly\<rparr>"

definition mkUpdate :: "string option \<Rightarrow> bool option \<Rightarrow> timeBlock list option \<Rightarrow> updateBody" where
  "mkUpdate n a tbs =
     \<lparr>ub_name = n, ub_description = None, ub_timeBlocks = tbs, ub_recurring = None, ub_isActive = a\<rparr>"

section \<open>The overlap scan finds exactly the overlapping pairs\<close>

lemma mset_insertSorted: "mset (insertSorted cmp x ys) = add_mset x (mset ys)"
  by (induction ys) auto

lemma mset_stableSort: "mset (stableSort cmp xs) = mset xs"
  by (induction xs) (auto simp: stableSort_def mset_insertSorted)

lemma set_insertSorted: "set (insertSorted cmp x ys) = insert x (set ys)"
  by (metis mset_insertSorted set_mset_add_mset_insert set_mset_mset)

lemma set_stableSort: "set (stableSort cmp xs) = set xs"
  by (metis mset_stableSort set_mset_mset)

lemma positive_startCmp:
  "hasKey tm a \<Longrightarrow> hasKey tm b \<Longrightarrow> positive (startCmp tm a b) = (\<not> byStart tm a b)"
  by (auto simp: hasKey_def byStart_def startCmp_def)

lemma byStart_trans: "byStart tm a b \<Longrightarrow> byStart tm b c \<Longrightarrow> byStart tm a c"
  by (simp add: byStart_def)

lemma byStart_total: "\<not> byStart tm a b \<Longrightarrow> byStart tm b a"
  by (simp add: byStart_def)

lemma sorted_insertSorted:
  "hasKey tm x \<Longrightarrow> \<forall>y\<in>set ys. hasKey tm y \<Longrightarrow> sorted_wrt (byStart tm) ys
    \<Longrightarrow> sorted_wrt (byStart tm) (insertSorted (startCmp tm) x ys)"
proof (induction ys)
  case Nil then show ?case by simp
next
  case (Cons y ys)
  show ?case
  proof (cases "byStart tm x y")
    case True
    have "\<forall>z\<in>set ys. byStart tm x z"
      using True Cons.prems(3) byStart_trans by fastforce
    with True Cons.prems show ?thesis by (simp add: positive_startCmp)
  next
    case False
    then have "byStart tm y x" by (rule byStart_total)
    with False Cons show ?thesis
      by (simp add: positive_startCmp set_insertSorted)
  qed
qed

lemma sorted_stableSort:
  "\<forall>y\<in>set xs. hasKey tm y \<Longrightarrow> sorted_wrt (byStart tm) (stableSort (startCmp tm) xs)"
proof (induction xs)
  case Nil then show ?case by (simp add: stableSort_def)
next
  case (Cons x xs)
  have "stableSort (startCmp tm) (x # xs) = insertSorted (startCmp tm) x (stableSort (startCmp tm) xs)"
    by (simp add: stableSort_def)
  with Cons show ?case by (simp add: sorted_insertSorted set_stableSort)
qed

lemma sort_js_hasKey:
  assumes "\<forall>y\<in>set xs. hasKey tm y"
  shows "sort_js engineSort (startCmp tm) xs = stableSort (startCmp tm) xs"
proof -
  have "startCmp tm x y \<noteq> None" if "x \<in> set xs" "y \<in> set xs" for x y
  proof -
    from assms that have "hasKey tm x" "hasKey tm y" by blast+
    then obtain a b where "tm (startTime x) = Some a" "tm (startTime y) = Some b"
      by (auto simp: hasKey_def)
    then show ?thesis by (simp add: startCmp_def)
  qed
  then have "noNaN (startCmp tm) xs" by (simp add: noNaN_def list_all_iff)
  then show ?thesis by (simp add: sort_js_def)
qed

lemma gt_js_Some: "gt_js a b = (\<exists>x y. a = Some x \<and> b = Some y \<and> x > y)"
  by (cases a; cases b) auto

lemma positiveDuration_hasKey: "positiveDuration tm b \<Longrightarrow> hasKey tm b"
  by (auto simp: positiveDuration_def hasKey_def gt_js_Some)

lemma head_overlap:
  assumes "positiveDuration tm x" "positiveDuration tm y" "\<forall>z\<in>set rest. positiveDuration tm z"
    and "byStart tm x y" "\<forall>z\<in>set rest. byStart tm y z"
  shows "(\<exists>z\<in>set (y # rest). overlap tm x z) = gt_js (tm (endTime x)) (tm (startTime y))"
  using assms by (fastforce simp: overlap_def positiveDuration_def byStart_def gt_js_Some)

lemma adjacentOverlap_sorted:
  "\<forall>z\<in>set ys. positiveDuration tm z \<Longrightarrow> sorted_wrt (byStart tm) ys
   \<Longrightarrow> (adjacentOverlap tm ys \<noteq> None) = (\<not> sorted_wrt (\<lambda>a b. \<not> overlap tm a b) ys)"
proof (induction tm ys rule: adjacentOverlap.induct)
  case (1 tm x y rest)
  have h: "(\<exists>z\<in>set (y # rest). overlap tm x z) = gt_js (tm (endTime x)) (tm (startTime y))"
    using 1(2,3) by (intro head_overlap) auto
  show ?case
  proof (cases "gt_js (tm (endTime x)) (tm (startTime y))")
    case True
    with h show ?thesis by auto
  next
    case False
    with h 1 show ?thesis by auto
  qed
qed auto

lemma sorted_wrt_sym_mset:
  assumes "\<And>a b. P a b \<Longrightarrow> P b a"
  shows "sorted_wrt P xs = (\<forall>x \<in># mset xs. \<forall>y \<in># mset xs - {#x#}. P x y)"
proof (induction xs)
  case Nil then show ?case by simp
next
  case (Cons a xs)
  show ?case
    using assms by (simp add: Cons) (metis assms)
qed

lemma sorted_wrt_sym_perm:
  assumes "\<And>a b. P a b \<Longrightarrow> P b a" and "mset xs = mset ys"
  shows "sorted_wrt P xs = sorted_wrt P ys"
  using assms(2) by (simp add: sorted_wrt_sym_mset [of P, OF assms(1)])

lemma set_pushBlock_fst: "fst ` set (pushBlock b m) = insert (dayOfWeek b) (fst ` set m)"
  by (induction b m rule: pushBlock.induct) auto

lemma keysOk_pushBlock: "keysOk m \<Longrightarrow> keysOk (pushBlock b m)"
proof (induction b m rule: pushBlock.induct)
  case (1 b) then show ?case by (simp add: keysOk_def)
next
  case (2 b d bs rest)
  then show ?case
    using set_pushBlock_fst [of b rest]
    by (auto simp: keysOk_def)
qed

lemma map_of_pushBlock:
  "keysOk m \<Longrightarrow> map_of (pushBlock b m) =
     (map_of m)(dayOfWeek b \<mapsto> (case map_of m (dayOfWeek b) of None \<Rightarrow> [] | Some l \<Rightarrow> l) @ [b])"
proof (induction b m rule: pushBlock.induct)
  case (1 b) then show ?case by simp
next
  case (2 b d bs rest)
  show ?case
  proof (cases "dayOfWeek b = d")
    case True then show ?thesis by auto
  next
    case False
    show ?thesis
    proof (cases "dayOfWeek b < d")
      case True
      have "map_of rest (dayOfWeek b) = None"
        using True 2(2) by (force simp: keysOk_def map_of_eq_None_iff)
      with True False show ?thesis by auto
    next
      case ge: False
      have "keysOk rest" using 2(2) by (simp add: keysOk_def)
      with 2(1) False ge show ?thesis by (auto simp: fun_upd_twist)
    qed
  qed
qed

lemma blocksByDay_snoc: "blocksByDay (ts @ [b]) = pushBlock b (blocksByDay ts)"
  by (simp add: blocksByDay_def)

lemma keysOk_blocksByDay: "keysOk (blocksByDay ts)"
  by (induction ts rule: rev_induct) (simp_all add: blocksByDay_snoc keysOk_pushBlock, simp add: blocksByDay_def keysOk_def)

lemma map_of_blocksByDay:
  "map_of (blocksByDay ts) d =
     (if d \<in> dayOfWeek ` set ts then Some (filter (\<lambda>b. dayOfWeek b = d) ts) else None)"
proof (induction ts arbitrary: d rule: rev_induct)
  case Nil then show ?case by (simp add: blocksByDay_def)
next
  case (snoc b ts)
  have e: "dayOfWeek b \<notin> dayOfWeek ` set ts \<Longrightarrow> filter (\<lambda>x. dayOfWeek x = dayOfWeek b) ts = []"
    by (force simp: filter_empty_conv image_iff)
  show ?case
    using e by (auto simp: blocksByDay_snoc map_of_pushBlock keysOk_blocksByDay snoc)
qed

lemma set_blocksByDay:
  "set (blocksByDay ts) = {(d, filter (\<lambda>b. dayOfWeek b = d) ts) | d. d \<in> dayOfWeek ` set ts}"
proof -
  have d: "distinct (map fst (blocksByDay ts))"
    using keysOk_blocksByDay [of ts] unfolding keysOk_def
    by (simp add: strict_sorted_iff)
  have "(d, bs) \<in> set (blocksByDay ts) \<longleftrightarrow> map_of (blocksByDay ts) d = Some bs" for d bs
    using d by simp
  then show ?thesis
    by (auto simp: map_of_blocksByDay split: if_splits)
qed

lemma firstOverlap_ex:
  "(firstOverlap rt tm m \<noteq> None)
     = (\<exists>(d, bs)\<in>set m. adjacentOverlap tm (sort_js (sortInconsistent rt) (startCmp tm) bs) \<noteq> None)"
  by (induction rt tm m rule: firstOverlap.induct) (auto split: option.splits)

lemma overlap_sym: "overlap tm a b \<Longrightarrow> overlap tm b a"
  by (simp add: overlap_def)

lemma sorted_group_overlap:
  assumes "\<forall>z\<in>set bs. positiveDuration tm z"
  shows "(adjacentOverlap tm (sort_js engineSort (startCmp tm) bs) \<noteq> None)
           = (\<not> sorted_wrt (\<lambda>a b. \<not> overlap tm a b) bs)"
proof -
  let ?ys = "stableSort (startCmp tm) bs"
  have k: "\<forall>z\<in>set bs. hasKey tm z" using assms by (auto dest: positiveDuration_hasKey)
  have ok: "\<forall>z\<in>set ?ys. positiveDuration tm z" using assms by (simp add: set_stableSort)
  have "sorted_wrt (byStart tm) ?ys"
    using k by (rule sorted_stableSort)
  with ok have "(adjacentOverlap tm ?ys \<noteq> None) = (\<not> sorted_wrt (\<lambda>a b. \<not> overlap tm a b) ?ys)"
    by (rule adjacentOverlap_sorted)
  also have "sorted_wrt (\<lambda>a b. \<not> overlap tm a b) ?ys = sorted_wrt (\<lambda>a b. \<not> overlap tm a b) bs"
    by (rule sorted_wrt_sym_perm) (auto dest: overlap_sym simp: mset_stableSort)
  finally show ?thesis by (simp add: sort_js_hasKey [OF k])
qed

lemma sorted_wrt_by_day:
  "sorted_wrt (\<lambda>a b. \<not> (dayOfWeek a = dayOfWeek b \<and> R a b)) ts =
     (\<forall>d. sorted_wrt (\<lambda>a b. \<not> R a b) (filter (\<lambda>b. dayOfWeek b = d) ts))"
  by (induction ts) auto

lemma firstOverlap_blocksByDay:
  assumes "\<forall>z\<in>set ts. positiveDuration tm z"
  shows "(firstOverlap rt tm (blocksByDay ts) \<noteq> None) =
     (\<not> sorted_wrt (\<lambda>a b. \<not> (dayOfWeek a = dayOfWeek b \<and> overlap tm a b)) ts)"
proof -
  have g: "(adjacentOverlap tm (sort_js (sortInconsistent rt) (startCmp tm) (filter (\<lambda>b. dayOfWeek b = d) ts)) \<noteq> None)
      = (\<not> sorted_wrt (\<lambda>a b. \<not> overlap tm a b) (filter (\<lambda>b. dayOfWeek b = d) ts))" for d
    using assms by (intro sorted_group_overlap) auto
  have "(firstOverlap rt tm (blocksByDay ts) \<noteq> None) =
      (\<exists>d\<in>dayOfWeek ` set ts. \<not> sorted_wrt (\<lambda>a b. \<not> overlap tm a b) (filter (\<lambda>b. dayOfWeek b = d) ts))"
    unfolding firstOverlap_ex set_blocksByDay using g by auto
  also have "\<dots> = (\<exists>d. \<not> sorted_wrt (\<lambda>a b. \<not> overlap tm a b) (filter (\<lambda>b. dayOfWeek b = d) ts))"
  proof -
    have "filter (\<lambda>b. dayOfWeek b = d) ts = []" if "d \<notin> dayOfWeek ` set ts" for d
      using that by (force simp: filter_empty_conv image_iff)
    then show ?thesis by (metis sorted_wrt.simps(1))
  qed
  finally show ?thesis unfolding sorted_wrt_by_day by blast
qed

lemma not_sorted_wrt_sym_nth:
  assumes "\<And>a b. R a b \<Longrightarrow> R b a"
  shows "(\<not> sorted_wrt (\<lambda>a b. \<not> R a b) ts) =
     (\<exists>i j. i < length ts \<and> j < length ts \<and> i \<noteq> j \<and> R (ts ! i) (ts ! j))"
proof
  assume "\<not> sorted_wrt (\<lambda>a b. \<not> R a b) ts"
  then obtain i j where "i < j" "j < length ts" "R (ts ! i) (ts ! j)"
    by (auto simp: sorted_wrt_iff_nth_less)
  then show "\<exists>i j. i < length ts \<and> j < length ts \<and> i \<noteq> j \<and> R (ts ! i) (ts ! j)"
    by (intro exI [of _ i] exI [of _ j]) auto
next
  assume "\<exists>i j. i < length ts \<and> j < length ts \<and> i \<noteq> j \<and> R (ts ! i) (ts ! j)"
  then obtain i j where ij: "i < length ts" "j < length ts" "i \<noteq> j" "R (ts ! i) (ts ! j)"
    by blast
  then have "R (ts ! j) (ts ! i)" using assms by blast
  with ij have "\<exists>i j. i < j \<and> j < length ts \<and> R (ts ! i) (ts ! j)"
    by (cases "i < j") (auto simp: not_less le_less)
  then show "\<not> sorted_wrt (\<lambda>a b. \<not> R a b) ts"
    by (auto simp: sorted_wrt_iff_nth_less)
qed

text \<open>The pair that the scan reports.\<close>

lemma adjacentOverlap_Some:
  "adjacentOverlap tm ys = Some (x, y) \<Longrightarrow>
     \<exists>pre post. ys = pre @ x # y # post \<and> gt_js (tm (endTime x)) (tm (startTime y))"
proof (induction tm ys rule: adjacentOverlap.induct)
  case (1 tm a b rest)
  show ?case
  proof (cases "gt_js (tm (endTime a)) (tm (startTime b))")
    case True
    with 1(2) have "a = x" "b = y" by simp_all
    with True have "a # b # rest = [] @ x # y # rest \<and> gt_js (tm (endTime x)) (tm (startTime y))"
      by simp
    then show ?thesis by blast
  next
    case False
    with 1 obtain pre post where "b # rest = pre @ x # y # post"
      and g: "gt_js (tm (endTime x)) (tm (startTime y))" by auto
    then have "a # b # rest = (a # pre) @ x # y # post" by simp
    with g show ?thesis by blast
  qed
qed simp_all

lemma firstOverlap_Some:
  "firstOverlap rt tm m = Some (d, x, y) \<Longrightarrow>
     \<exists>bs. (d, bs) \<in> set m
        \<and> adjacentOverlap tm (sort_js (sortInconsistent rt) (startCmp tm) bs) = Some (x, y)"
  by (induction rt tm m rule: firstOverlap.induct) (auto split: option.splits)

lemma scan_reports_overlapping_pair:
  assumes ok: "\<forall>z\<in>set ts. positiveDuration tm z"
    and f: "firstOverlap rt tm (blocksByDay ts) = Some (d, x, y)"
  shows "x \<in> set ts \<and> y \<in> set ts \<and> dayOfWeek x = d \<and> dayOfWeek y = d \<and> overlap tm x y"
proof -
  from f obtain bs where m: "(d, bs) \<in> set (blocksByDay ts)"
    and a0: "adjacentOverlap tm (sort_js (sortInconsistent rt) (startCmp tm) bs) = Some (x, y)"
    by (blast dest: firstOverlap_Some)
  from m have bs: "bs = filter (\<lambda>b. dayOfWeek b = d) ts" by (auto simp: set_blocksByDay)
  have k: "\<forall>z\<in>set bs. hasKey tm z" using ok bs by (auto dest: positiveDuration_hasKey)
  from a0 have a: "adjacentOverlap tm (stableSort (startCmp tm) bs) = Some (x, y)"
    by (simp add: sort_js_hasKey [OF k])
  from a obtain pre post where s: "stableSort (startCmp tm) bs = pre @ x # y # post"
    and g: "gt_js (tm (endTime x)) (tm (startTime y))"
    by (blast dest: adjacentOverlap_Some)
  have "set (stableSort (startCmp tm) bs) = set bs" by (rule set_stableSort)
  with s have xy: "x \<in> set bs" "y \<in> set bs" by auto
  have "sorted_wrt (byStart tm) (stableSort (startCmp tm) bs)" using k by (rule sorted_stableSort)
  with s have b: "byStart tm x y" by (simp add: sorted_wrt_append)
  have "positiveDuration tm x" "positiveDuration tm y" using ok xy bs by auto
  with b g have "overlap tm x y"
    by (auto simp: overlap_def positiveDuration_def byStart_def gt_js_Some)
  with xy bs show ?thesis by simp
qed

lemma scan_finds_overlap:
  assumes ok: "\<forall>z\<in>set ts. positiveDuration tm z"
    and ex: "i < length ts" "j < length ts" "i \<noteq> j" "dayOfWeek (ts ! i) = dayOfWeek (ts ! j)"
      "overlap tm (ts ! i) (ts ! j)"
  shows "\<exists>d x y. firstOverlap rt tm (blocksByDay ts) = Some (d, x, y)"
proof -
  let ?R = "\<lambda>a b. dayOfWeek a = dayOfWeek b \<and> overlap tm a b"
  have sym: "\<And>a b. ?R a b \<Longrightarrow> ?R b a" by (auto dest: overlap_sym)
  have "(\<not> sorted_wrt (\<lambda>a b. \<not> ?R a b) ts)
      = (\<exists>i j. i < length ts \<and> j < length ts \<and> i \<noteq> j \<and> ?R (ts ! i) (ts ! j))"
    using sym by (rule not_sorted_wrt_sym_nth)
  with ex have "\<not> sorted_wrt (\<lambda>a b. \<not> ?R a b) ts" by blast
  then have "firstOverlap rt tm (blocksByDay ts) \<noteq> None"
    using firstOverlap_blocksByDay [OF ok] by simp
  then show ?thesis by auto
qed

section \<open>Properties of the schedule model\<close>

text \<open>
  On a local day without a clock change \<open>parseTime\<close> orders the times of the pattern as
  their times of day. Then, for a schedule all of whose time blocks have
  \<open>startTime < endTime\<close>, \<open>hasConflicts\<close> is true exactly when two distinct time blocks (two
  positions of \<open>timeBlocks\<close>) have the same \<open>dayOfWeek\<close> and overlap as open intervals of the
  day, and it has the same value on every permutation of \<open>timeBlocks\<close>.
\<close>

lemma digitVal_bounds: "isDigit c \<Longrightarrow> 0 \<le> digitVal c \<and> digitVal c \<le> 9"
  by (auto simp: isDigit_def digitVal_def)

lemma isDigit_plain:
  "isDigit c \<Longrightarrow> \<not> isSpace c \<and> c \<noteq> CHR '':'' \<and> c \<noteq> CHR ''+'' \<and> c \<noteq> CHR ''-''"
  by (auto simp: isDigit_def isSpace_def)

lemma Number_js_one_digit: "isDigit a \<Longrightarrow> Number_js [a] = Some (digitVal a)"
  by (simp add: Number_js_def trim_js_def decimalDigits_def isDigit_plain)

lemma Number_js_two_digits:
  "isDigit a \<Longrightarrow> isDigit b \<Longrightarrow> Number_js [a, b] = Some (10 * digitVal a + digitVal b)"
  by (simp add: Number_js_def trim_js_def decimalDigits_def isDigit_plain)

lemma timePattern_cases:
  assumes "timePattern t"
  obtains h m1 m2 where "t = [h, CHR '':'', m1, m2]" "isDigit h" "isDigit m1" "isDigit m2"
      "digitVal m1 \<le> 5"
  | h1 h2 m1 m2 where "t = [h1, h2, CHR '':'', m1, m2]" "isDigit h1" "isDigit h2" "isDigit m1"
      "isDigit m2" "10 * digitVal h1 + digitVal h2 \<le> 23" "digitVal m1 \<le> 5"
proof (cases t rule: timePattern.cases)
  case (1 h c m1 m2)
  with assms have "c = CHR '':''" "isDigit h" "isDigit m2" "m1 \<in> set ''012345''" by simp_all
  moreover from this have "isDigit m1" "digitVal m1 \<le> 5" by (auto simp: isDigit_def digitVal_def)
  ultimately show ?thesis using 1 that(1) by blast
next
  case (2 h1 h2 c m1 m2)
  with assms have c: "c = CHR '':''" and m2: "isDigit m2" and m1: "m1 \<in> set ''012345''"
    and h: "(h1 \<in> set ''01'' \<and> isDigit h2) \<or> (h1 = CHR ''2'' \<and> h2 \<in> set ''0123'')"
    by simp_all
  from m1 have dm1: "isDigit m1" "digitVal m1 \<le> 5" by (auto simp: isDigit_def digitVal_def)
  from h have dh: "isDigit h1" "isDigit h2" "10 * digitVal h1 + digitVal h2 \<le> 23"
    using digitVal_bounds [of h2] by (auto simp: isDigit_def digitVal_def)
  show ?thesis using 2 c m2 dm1 dh that(2) by blast
qed (use assms in simp_all)

lemma parseTime_timePattern:
  assumes "timePattern t"
  shows "\<exists>m. spec_timeOfDay t = Some m \<and> 0 \<le> m \<and> m < 1440
             \<and> parseTime rt t = Some (utc_js rt (today rt + m * 60000))"
  using assms
proof (cases t rule: timePattern_cases)
  case (1 h m1 m2)
  have "parseTime rt t = Some (utc_js rt (today rt + (digitVal h * 60 + (10 * digitVal m1 + digitVal m2)) * 60000))"
    using 1 by (simp add: parseTime_def isDigit_plain Number_js_one_digit Number_js_two_digits)
  moreover have "spec_timeOfDay t = Some (digitVal h * 60 + (10 * digitVal m1 + digitVal m2))"
    using 1 assms by simp
  moreover have "0 \<le> digitVal h * 60 + (10 * digitVal m1 + digitVal m2)"
    "digitVal h * 60 + (10 * digitVal m1 + digitVal m2) < 1440"
    using 1 digitVal_bounds [of h] digitVal_bounds [of m1] digitVal_bounds [of m2] by auto
  ultimately show ?thesis by blast
next
  case (2 h1 h2 m1 m2)
  have "parseTime rt t = Some (utc_js rt (today rt + ((10 * digitVal h1 + digitVal h2) * 60 + (10 * digitVal m1 + digitVal m2)) * 60000))"
    using 2 by (simp add: parseTime_def isDigit_plain Number_js_two_digits)
  moreover have "spec_timeOfDay t = Some ((10 * digitVal h1 + digitVal h2) * 60 + (10 * digitVal m1 + digitVal m2))"
    using 2 assms by simp
  moreover have "0 \<le> (10 * digitVal h1 + digitVal h2) * 60 + (10 * digitVal m1 + digitVal m2)"
    "(10 * digitVal h1 + digitVal h2) * 60 + (10 * digitVal m1 + digitVal m2) < 1440"
    using 2 digitVal_bounds [of h1] digitVal_bounds [of h2] digitVal_bounds [of m1] digitVal_bounds [of m2] by auto
  ultimately show ?thesis by blast
qed

lemma spec_timeOfDay_Some: "spec_timeOfDay t = Some m \<Longrightarrow> timePattern t"
  by (cases t rule: spec_timeOfDay.cases) (auto split: if_splits)

lemma utc_js_steady:
  "steadyDay rt d \<Longrightarrow> 0 \<le> m \<Longrightarrow> m < 1440 \<Longrightarrow> utc_js rt (d + m * 60000) = d - localTZA rt d + m * 60000"
  by (simp add: steadyDay_def utc_js_def)

lemma parseTime_steady:
  assumes "steadyDay rt (today rt)" "spec_timeOfDay t = Some m"
  shows "parseTime rt t = Some (today rt - localTZA rt (today rt) + m * 60000)"
proof -
  from assms(2) have "timePattern t" by (rule spec_timeOfDay_Some)
  from parseTime_timePattern [OF this, of rt] assms(2) obtain
    b: "0 \<le> m" "m < 1440" and p: "parseTime rt t = Some (utc_js rt (today rt + m * 60000))"
    by auto
  with assms(1) show ?thesis by (simp add: utc_js_steady)
qed

lemma gt_parseTime_steady:
  assumes "steadyDay rt (today rt)" "timePattern t" "timePattern u"
  shows "gt_js (parseTime rt u) (parseTime rt t) = spec_before t u"
proof -
  from parseTime_timePattern [OF assms(2), of rt] obtain m where m: "spec_timeOfDay t = Some m" by blast
  from parseTime_timePattern [OF assms(3), of rt] obtain n where n: "spec_timeOfDay u = Some n" by blast
  show ?thesis
    using parseTime_steady [OF assms(1) m] parseTime_steady [OF assms(1) n] m n
    by (simp add: spec_before_def)
qed

lemma spec_before_pattern: "spec_before t u \<Longrightarrow> timePattern t \<and> timePattern u"
  by (auto simp: spec_before_def gt_js_Some dest: spec_timeOfDay_Some)

lemma spec_positiveDuration_pattern:
  "spec_positiveDuration b \<Longrightarrow> timePattern (startTime b) \<and> timePattern (endTime b)"
  by (auto simp: spec_positiveDuration_def dest: spec_before_pattern)

lemma positiveDuration_steady:
  "steadyDay rt (today rt) \<Longrightarrow> spec_positiveDuration b \<Longrightarrow> positiveDuration (parseTime rt) b"
  using spec_positiveDuration_pattern [of b]
  by (simp add: positiveDuration_def spec_positiveDuration_def gt_parseTime_steady)

lemma overlap_steady:
  "steadyDay rt (today rt) \<Longrightarrow> spec_positiveDuration a \<Longrightarrow> spec_positiveDuration b
     \<Longrightarrow> overlap (parseTime rt) a b = spec_overlap a b"
  using spec_positiveDuration_pattern [of a] spec_positiveDuration_pattern [of b]
  by (simp add: overlap_def spec_overlap_def gt_parseTime_steady)

lemma spec_overlap_sym: "spec_overlap a b \<Longrightarrow> spec_overlap b a"
  by (simp add: spec_overlap_def)

lemma hasConflicts_steady_day:
  assumes st: "steadyDay rt (today rt)"
    and ok: "\<forall>b\<in>set (timeBlocks s). spec_positiveDuration b"
  shows "hasConflicts rt s \<longleftrightarrow>
          (\<exists>i j. i < length (timeBlocks s) \<and> j < length (timeBlocks s) \<and> i \<noteq> j \<and>
                 dayOfWeek (timeBlocks s ! i) = dayOfWeek (timeBlocks s ! j) \<and>
                 spec_overlap (timeBlocks s ! i) (timeBlocks s ! j))"
proof -
  let ?ts = "timeBlocks s"
  let ?R = "\<lambda>a b. dayOfWeek a = dayOfWeek b \<and> overlap (parseTime rt) a b"
  have sym: "\<And>a b. ?R a b \<Longrightarrow> ?R b a" by (auto dest: overlap_sym)
  have pd: "\<forall>b\<in>set ?ts. positiveDuration (parseTime rt) b"
    using st ok by (auto intro: positiveDuration_steady)
  have "hasConflicts rt s = (\<not> sorted_wrt (\<lambda>a b. \<not> ?R a b) ?ts)"
    unfolding hasConflicts_def using pd by (rule firstOverlap_blocksByDay)
  also have "\<dots> = (\<exists>i j. i < length ?ts \<and> j < length ?ts \<and> i \<noteq> j \<and> ?R (?ts ! i) (?ts ! j))"
    using sym by (rule not_sorted_wrt_sym_nth)
  finally have main: "hasConflicts rt s
      = (\<exists>i j. i < length ?ts \<and> j < length ?ts \<and> i \<noteq> j \<and> ?R (?ts ! i) (?ts ! j))" .
  have eq: "overlap (parseTime rt) (?ts ! i) (?ts ! j) = spec_overlap (?ts ! i) (?ts ! j)"
    if "i < length ?ts" "j < length ?ts" for i j
    using st ok that by (intro overlap_steady) auto
  show ?thesis unfolding main using eq by blast
qed

lemma hasConflicts_steady_day_permutation:
  assumes st: "steadyDay rt (today rt)"
    and ok: "\<forall>b\<in>set (timeBlocks s). spec_positiveDuration b"
    and perm: "mset (timeBlocks s') = mset (timeBlocks s)"
  shows "hasConflicts rt s' = hasConflicts rt s"
proof -
  let ?R = "\<lambda>a b. dayOfWeek a = dayOfWeek b \<and> overlap (parseTime rt) a b"
  have sym: "\<And>a b. \<not> ?R a b \<Longrightarrow> \<not> ?R b a" by (auto dest: overlap_sym)
  have "set (timeBlocks s') = set (timeBlocks s)" using perm by (rule mset_eq_setD)
  with st ok have pd: "\<forall>b\<in>set (timeBlocks s). positiveDuration (parseTime rt) b"
    and pd': "\<forall>b\<in>set (timeBlocks s'). positiveDuration (parseTime rt) b"
    by (auto intro: positiveDuration_steady)
  have "hasConflicts rt s' = (\<not> sorted_wrt (\<lambda>a b. \<not> ?R a b) (timeBlocks s'))"
    unfolding hasConflicts_def using pd' by (rule firstOverlap_blocksByDay)
  also have "sorted_wrt (\<lambda>a b. \<not> ?R a b) (timeBlocks s') = sorted_wrt (\<lambda>a b. \<not> ?R a b) (timeBlocks s)"
    using sym perm by (rule sorted_wrt_sym_perm)
  also have "(\<not> sorted_wrt (\<lambda>a b. \<not> ?R a b) (timeBlocks s)) = hasConflicts rt s"
    unfolding hasConflicts_def using pd by (rule firstOverlap_blocksByDay [symmetric])
  finally show ?thesis .
qed

lemma steadyDay_utcServer: "steadyDay utcServer d"
  by (simp add: steadyDay_def utcServer_def)

text \<open>
  C1. On a day on which the clocks go forward \<open>parseTime\<close> does not keep the order of the
  times of day: in New York on 2026-03-08, 02:30 is 9000000 ms after midnight and 03:00 is
  7200000 ms after midnight. For the blocks 01:00-02:30 and 03:00-04:00 of the same day,
  which have \<open>startTime < endTime\<close> and do not overlap, \<open>hasConflicts\<close> is true there; on the
  server without clock changes it is false.
\<close>

theorem hasConflicts_true_without_overlap_on_clock_change:
  "hasConflicts newYorkServer
     (mkSchedule [mkBlock ''b1'' 0 ''01:00'' ''02:30'', mkBlock ''b2'' 0 ''03:00'' ''04:00''])
   \<and> spec_positiveDuration (mkBlock ''b1'' 0 ''01:00'' ''02:30'')
   \<and> spec_positiveDuration (mkBlock ''b2'' 0 ''03:00'' ''04:00'')
   \<and> \<not> spec_overlap (mkBlock ''b1'' 0 ''01:00'' ''02:30'') (mkBlock ''b2'' 0 ''03:00'' ''04:00'')
   \<and> parseTime newYorkServer ''00:00'' = Some 1772946000000
   \<and> parseTime newYorkServer ''02:30'' = Some (1772946000000 + 9000000)
   \<and> parseTime newYorkServer ''03:00'' = Some (1772946000000 + 7200000)
   \<and> \<not> hasConflicts utcServer
        (mkSchedule [mkBlock ''b1'' 0 ''01:00'' ''02:30'', mkBlock ''b2'' 0 ''03:00'' ''04:00''])"
  by code_simp

text \<open>
  C7. On the same day the order of \<open>timeBlocks\<close> decides the result: the blocks 02:30-03:00
  and 03:30-04:00 have \<open>startTime < endTime\<close> and equal sort keys, and \<open>hasConflicts\<close> is false
  for them in this order and true in the other order.
\<close>

theorem hasConflicts_depends_on_order_on_clock_change:
  "\<not> hasConflicts newYorkServer
       (mkSchedule [mkBlock ''x'' 0 ''02:30'' ''03:00'', mkBlock ''y'' 0 ''03:30'' ''04:00''])
   \<and> hasConflicts newYorkServer
       (mkSchedule [mkBlock ''y'' 0 ''03:30'' ''04:00'', mkBlock ''x'' 0 ''02:30'' ''03:00''])
   \<and> mset (timeBlocks (mkSchedule [mkBlock ''y'' 0 ''03:30'' ''04:00'', mkBlock ''x'' 0 ''02:30'' ''03:00'']))
     = mset (timeBlocks (mkSchedule [mkBlock ''x'' 0 ''02:30'' ''03:00'', mkBlock ''y'' 0 ''03:30'' ''04:00'']))
   \<and> spec_positiveDuration (mkBlock ''x'' 0 ''02:30'' ''03:00'')
   \<and> spec_positiveDuration (mkBlock ''y'' 0 ''03:30'' ''04:00'')
   \<and> parseTime newYorkServer ''02:30'' = parseTime newYorkServer ''03:30''"
proof -
  have "mset (timeBlocks (mkSchedule [mkBlock ''y'' 0 ''03:30'' ''04:00'', mkBlock ''x'' 0 ''02:30'' ''03:00'']))
     = mset (timeBlocks (mkSchedule [mkBlock ''x'' 0 ''02:30'' ''03:00'', mkBlock ''y'' 0 ''03:30'' ''04:00'']))"
    by (simp add: mkSchedule_def)
  moreover have "\<not> hasConflicts newYorkServer
       (mkSchedule [mkBlock ''x'' 0 ''02:30'' ''03:00'', mkBlock ''y'' 0 ''03:30'' ''04:00''])"
    by code_simp
  moreover have "hasConflicts newYorkServer
       (mkSchedule [mkBlock ''y'' 0 ''03:30'' ''04:00'', mkBlock ''x'' 0 ''02:30'' ''03:00''])"
    by code_simp
  moreover have "spec_positiveDuration (mkBlock ''x'' 0 ''02:30'' ''03:00'')"
    "spec_positiveDuration (mkBlock ''y'' 0 ''03:30'' ''04:00'')"
    "parseTime newYorkServer ''02:30'' = parseTime newYorkServer ''03:30''"
    by code_simp+
  ultimately show ?thesis by blast
qed

text \<open>
  C9. In one runtime \<open>hasConflicts\<close> is determined by \<open>timeBlocks\<close> alone: two schedules with the same
  \<open>timeBlocks\<close> have the same value, whatever their name, description, \<open>isActive\<close>,
  recurrence rule and exceptions; and the document that \<open>toggleActive\<close> saves has the same
  value as before.
\<close>

theorem hasConflicts_only_timeBlocks:
  assumes "timeBlocks s1 = timeBlocks s2"
  shows "hasConflicts rt s1 = hasConflicts rt s2 \<and>
         (\<forall>store s' store'. toggleActive store s1 = Inr (s', store') \<longrightarrow> hasConflicts rt s' = hasConflicts rt s2)"
  using assms by (auto simp: hasConflicts_def toggleActive_def save_def split: if_splits)

theorem hasConflicts_only_timeBlocks_witness:
  "timeBlocks (mkSchedule [mkBlock ''b1'' 1 ''09:00'' ''10:00'', mkBlock ''b3'' 1 ''09:30'' ''10:30''])
     = timeBlocks ((mkSchedule [mkBlock ''b1'' 1 ''09:00'' ''10:00'', mkBlock ''b3'' 1 ''09:30'' ''10:30''])
         \<lparr>name := ''Other'', description := Some ''text'', isActive := False,
          recurring := weekly\<lparr>frequency := Daily\<rparr>,
          exceptions := [\<lparr>exc_date = 1704672000000, reason = ''holiday'', action = Skip, modifiedTimeBlocks = []\<rparr>]\<rparr>)
   \<and> hasConflicts utcServer (mkSchedule [mkBlock ''b1'' 1 ''09:00'' ''10:00'', mkBlock ''b3'' 1 ''09:30'' ''10:30''])
     = hasConflicts utcServer ((mkSchedule [mkBlock ''b1'' 1 ''09:00'' ''10:00'', mkBlock ''b3'' 1 ''09:30'' ''10:30''])
         \<lparr>name := ''Other'', description := Some ''text'', isActive := False,
          recurring := weekly\<lparr>frequency := Daily\<rparr>,
          exceptions := [\<lparr>exc_date = 1704672000000, reason = ''holiday'', action = Skip, modifiedTimeBlocks = []\<rparr>]\<rparr>)
   \<and> hasConflicts utcServer (mkSchedule [mkBlock ''b1'' 1 ''09:00'' ''10:00'', mkBlock ''b3'' 1 ''09:30'' ''10:30''])
   \<and> toggleActive Map.empty (mkSchedule [mkBlock ''b1'' 1 ''09:00'' ''10:00'', mkBlock ''b3'' 1 ''09:30'' ''10:30''])
      = Inr ((mkSchedule [mkBlock ''b1'' 1 ''09:00'' ''10:00'', mkBlock ''b3'' 1 ''09:30'' ''10:30''])\<lparr>isActive := False\<rparr>,
             [''s1'' \<mapsto> (mkSchedule [mkBlock ''b1'' 1 ''09:00'' ''10:00'', mkBlock ''b3'' 1 ''09:30'' ''10:30''])\<lparr>isActive := False\<rparr>])
   \<and> hasConflicts utcServer ((mkSchedule [mkBlock ''b1'' 1 ''09:00'' ''10:00'', mkBlock ''b3'' 1 ''09:30'' ''10:30''])\<lparr>isActive := False\<rparr>)"
proof -
  let ?s1 = "mkSchedule [mkBlock ''b1'' 1 ''09:00'' ''10:00'', mkBlock ''b3'' 1 ''09:30'' ''10:30'']"
  let ?s2 = "?s1\<lparr>name := ''Other'', description := Some ''text'', isActive := False,
          recurring := weekly\<lparr>frequency := Daily\<rparr>,
          exceptions := [\<lparr>exc_date = 1704672000000, reason = ''holiday'', action = Skip, modifiedTimeBlocks = []\<rparr>]\<rparr>"
  let ?t = "?s1\<lparr>isActive := False\<rparr>"
  have h: "timeBlocks ?s1 = timeBlocks ?s2" by simp
  have c: "hasConflicts utcServer ?s1" by code_simp
  have ok: "schemaOk ?s1" by code_simp
  then have "schemaOk ?t" by (simp add: schemaOk_def)
  then have t: "toggleActive Map.empty ?s1 = Inr (?t, [''s1'' \<mapsto> ?t])"
    by (simp add: toggleActive_def save_def mkSchedule_def)
  from hasConflicts_only_timeBlocks [OF h, of utcServer] t have "hasConflicts utcServer ?t = hasConflicts utcServer ?s2" by blast
  with hasConflicts_only_timeBlocks [OF h, of utcServer] h c t show ?thesis by blast
qed

text \<open>
  C6. When \<open>blockId\<close> is the \<open>_id\<close> of no time block of a schedule, \<open>removeTimeBlock\<close> does
  what saving the unchanged schedule does: for a schedule that satisfies its schema it
  returns the schedule as it was and does not fail. On a well-formed collection the
  \<open>DELETE\<close> route answers 200 with the unchanged schedule and leaves the collection as it
  was.
\<close>

theorem removeTimeBlock_unknown_id:
  assumes "\<forall>b\<in>set (timeBlocks s). block_id b \<noteq> blockId"
  shows "removeTimeBlock store s blockId = save store s \<and>
         (schemaOk s \<longrightarrow> removeTimeBlock store s blockId = Inr (s, store(sched_id s \<mapsto> s))) \<and>
         (storeOk store \<and> findOne store ident user = Some s \<longrightarrow>
            removeTimeBlock store s blockId = Inr (s, store) \<and>
            removeTimeBlockRoute store user ident blockId = (Ok s, store))"
proof -
  have f: "filter (\<lambda>block. block_id block \<noteq> blockId) (timeBlocks s) = timeBlocks s"
    using assms by (simp add: filter_id_conv)
  have r: "removeTimeBlock store s blockId = save store s"
    by (simp add: removeTimeBlock_def f)
  have v: "save store s = Inr (s, store(sched_id s \<mapsto> s))" if "schemaOk s"
    using that by (simp add: save_def)
  have u: "save store s = Inr (s, store)" if "storeOk store" "findOne store ident user = Some s"
  proof -
    from that(2) have "store ident = Some s"
      by (auto simp: findOne_def split: option.splits if_splits)
    with that(1) have "schemaOk s" "store (sched_id s) = Some s" by (auto simp: storeOk_def)
    then show ?thesis by (simp add: save_def fun_upd_idem)
  qed
  show ?thesis
    using r v u by (auto simp: removeTimeBlockRoute_def)
qed

theorem removeTimeBlock_unknown_id_witness:
  "list_all (\<lambda>b. block_id b \<noteq> ''zz'') (timeBlocks (mkSchedule [mkBlock ''b1'' 1 ''09:00'' ''10:00'', mkBlock ''b2'' 1 ''10:00'' ''11:00'']))
   \<and> schemaOk (mkSchedule [mkBlock ''b1'' 1 ''09:00'' ''10:00'', mkBlock ''b2'' 1 ''10:00'' ''11:00''])
   \<and> storeOk [''s1'' \<mapsto> mkSchedule [mkBlock ''b1'' 1 ''09:00'' ''10:00'', mkBlock ''b2'' 1 ''10:00'' ''11:00'']]
   \<and> removeTimeBlock Map.empty (mkSchedule [mkBlock ''b1'' 1 ''09:00'' ''10:00'', mkBlock ''b2'' 1 ''10:00'' ''11:00'']) ''zz''
      = Inr (mkSchedule [mkBlock ''b1'' 1 ''09:00'' ''10:00'', mkBlock ''b2'' 1 ''10:00'' ''11:00''],
             [''s1'' \<mapsto> mkSchedule [mkBlock ''b1'' 1 ''09:00'' ''10:00'', mkBlock ''b2'' 1 ''10:00'' ''11:00'']])
   \<and> removeTimeBlockRoute
        [''s1'' \<mapsto> mkSchedule [mkBlock ''b1'' 1 ''09:00'' ''10:00'', mkBlock ''b2'' 1 ''10:00'' ''11:00'']]
        ''u1'' ''s1'' ''zz''
      = (Ok (mkSchedule [mkBlock ''b1'' 1 ''09:00'' ''10:00'', mkBlock ''b2'' 1 ''10:00'' ''11:00'']),
         [''s1'' \<mapsto> mkSchedule [mkBlock ''b1'' 1 ''09:00'' ''10:00'', mkBlock ''b2'' 1 ''10:00'' ''11:00'']])"
proof -
  let ?s = "mkSchedule [mkBlock ''b1'' 1 ''09:00'' ''10:00'', mkBlock ''b2'' 1 ''10:00'' ''11:00'']"
  have h1: "\<forall>b\<in>set (timeBlocks ?s). block_id b \<noteq> ''zz''" by (simp add: mkSchedule_def mkBlock_def)
  have h2: "schemaOk ?s" by code_simp
  have i: "sched_id ?s = ''s1''" by (simp add: mkSchedule_def)
  have h3: "storeOk [''s1'' \<mapsto> ?s]" using h2 i by (simp add: storeOk_def)
  have f: "findOne [''s1'' \<mapsto> ?s] ''s1'' ''u1'' = Some ?s" by (simp add: findOne_def mkSchedule_def)
  from removeTimeBlock_unknown_id [OF h1, of Map.empty] h2
  have "removeTimeBlock Map.empty ?s ''zz'' = Inr (?s, Map.empty(sched_id ?s \<mapsto> ?s))" by blast
  then have m: "removeTimeBlock Map.empty ?s ''zz'' = Inr (?s, [''s1'' \<mapsto> ?s])" by (simp only: i)
  from removeTimeBlock_unknown_id [OF h1, of "[''s1'' \<mapsto> ?s]" "''s1''" "''u1''"] h3 f
  have "removeTimeBlockRoute [''s1'' \<mapsto> ?s] ''u1'' ''s1'' ''zz'' = (Ok ?s, [''s1'' \<mapsto> ?s])"
    by blast
  with h1 h2 h3 m show ?thesis unfolding list_all_iff by blast
qed

section \<open>Properties of the routes\<close>

lemma blockValidators_empty_iff:
  "(blockValidators tbs = []) = list_all blockSchemaOk tbs"
  by (induction tbs) (auto simp: blockValidators_def blockSchemaOk_def)

lemma addBlockValidators_empty_iff:
  "(addBlockValidators b = []) = blockSchemaOk b"
  by (auto simp: addBlockValidators_def blockSchemaOk_def)

lemma blockSchemaOk_swap:
  "blockSchemaOk (b\<lparr>startTime := endTime b, endTime := startTime b\<rparr>) = blockSchemaOk b"
  by (auto simp: blockSchemaOk_def)

text \<open>
  C4. What the boundary validation of the create route and of the add-time-block route
  guarantees for an accepted time block is syntactic: \<open>dayOfWeek\<close> at most 6, \<open>startTime\<close> and
  \<open>endTime\<close> matching the time pattern, \<open>subject\<close> non-empty; every block of a created
  schedule, and of a schedule after an accepted addition, satisfies this. The validators
  never compare \<open>startTime\<close> with \<open>endTime\<close>: a body is accepted exactly when the body with
  the two times of each block exchanged is accepted.
\<close>

theorem boundary_validation_is_syntactic:
  "(createSchedule rt store user newId body = (Created s, store') \<longrightarrow>
      list_all blockSchemaOk (cb_timeBlocks body) \<and> list_all blockSchemaOk (timeBlocks s))
   \<and> (addTimeBlockRoute store user ident b = (Ok s, store') \<longrightarrow>
      blockSchemaOk b \<and> list_all blockSchemaOk (timeBlocks s))
   \<and> (createValidators (body\<lparr>cb_timeBlocks :=
          map (\<lambda>b. b\<lparr>startTime := endTime b, endTime := startTime b\<rparr>) (cb_timeBlocks body)\<rparr>) = [])
       = (createValidators body = [])
   \<and> (addBlockValidators (b\<lparr>startTime := endTime b, endTime := startTime b\<rparr>) = [])
       = (addBlockValidators b = [])"
proof -
  have c: "list_all blockSchemaOk (cb_timeBlocks body) \<and> list_all blockSchemaOk (timeBlocks s)"
    if "createSchedule rt store user newId body = (Created s, store')"
  proof -
    from that have v: "createValidators body = []"
      by (auto simp: createSchedule_def Let_def split: if_splits)
    then have "blockValidators (cb_timeBlocks body) = []"
      by (simp add: createValidators_def)
    then have 1: "list_all blockSchemaOk (cb_timeBlocks body)"
      by (simp add: blockValidators_empty_iff)
    from that v have "schemaOk s"
      by (auto simp: createSchedule_def save_def split: option.splits if_splits sum.splits prod.splits)
    then have "list_all blockSchemaOk (timeBlocks s)" by (simp add: schemaOk_def)
    with 1 show ?thesis by simp
  qed
  have a: "blockSchemaOk b \<and> list_all blockSchemaOk (timeBlocks s)"
    if "addTimeBlockRoute store user ident b = (Ok s, store')"
  proof -
    from that have v: "addBlockValidators b = []"
      by (auto simp: addTimeBlockRoute_def Let_def split: if_splits)
    from that v have "schemaOk s"
      by (auto simp: addTimeBlockRoute_def addTimeBlock_def save_def
               split: option.splits if_splits sum.splits prod.splits)
    with v show ?thesis by (simp add: schemaOk_def addBlockValidators_empty_iff)
  qed
  have sw: "list_all blockSchemaOk (map (\<lambda>b. b\<lparr>startTime := endTime b, endTime := startTime b\<rparr>) tbs)
            = list_all blockSchemaOk tbs" for tbs
    by (induction tbs) (simp_all add: blockSchemaOk_swap)
  have cs: "(createValidators (body\<lparr>cb_timeBlocks :=
          map (\<lambda>b. b\<lparr>startTime := endTime b, endTime := startTime b\<rparr>) (cb_timeBlocks body)\<rparr>) = [])
       = (createValidators body = [])"
    by (simp add: createValidators_def blockValidators_empty_iff sw)
  have as: "(addBlockValidators (b\<lparr>startTime := endTime b, endTime := startTime b\<rparr>) = [])
       = (addBlockValidators b = [])"
    by (simp only: addBlockValidators_empty_iff blockSchemaOk_swap)
  from c a cs as show ?thesis by blast
qed

theorem boundary_validation_is_syntactic_witness:
  "fst (createSchedule utcServer Map.empty ''u1'' ''s1'' (mkBody [mkBlock ''b1'' 1 ''10:00'' ''09:00'']))
     = Created (mkSchedule [mkBlock ''b1'' 1 ''10:00'' ''09:00''])
   \<and> list_all blockSchemaOk (timeBlocks (mkSchedule [mkBlock ''b1'' 1 ''10:00'' ''09:00'']))
   \<and> fst (addTimeBlockRoute [''s1'' \<mapsto> mkSchedule [mkBlock ''b1'' 1 ''10:00'' ''09:00'']] ''u1'' ''s1''
             (mkBlock ''b2'' 2 ''10:00'' ''10:00''))
     = Ok (mkSchedule [mkBlock ''b1'' 1 ''10:00'' ''09:00'', mkBlock ''b2'' 2 ''10:00'' ''10:00''])
   \<and> blockSchemaOk (mkBlock ''b2'' 2 ''10:00'' ''10:00'')
   \<and> list_all blockSchemaOk (timeBlocks (mkSchedule [mkBlock ''b1'' 1 ''10:00'' ''09:00'', mkBlock ''b2'' 2 ''10:00'' ''10:00'']))
   \<and> createValidators (mkBody [mkBlock ''b1'' 1 ''09:00'' ''10:00'']) = []
   \<and> createValidators (mkBody [mkBlock ''b1'' 1 ''10:00'' ''09:00'']) = []"
proof -
  let ?b = "mkBody [mkBlock ''b1'' 1 ''10:00'' ''09:00'']"
  let ?s = "mkSchedule [mkBlock ''b1'' 1 ''10:00'' ''09:00'']"
  let ?r = "createSchedule utcServer Map.empty ''u1'' ''s1'' ?b"
  let ?n = "mkBlock ''b2'' 2 ''10:00'' ''10:00''"
  let ?s' = "mkSchedule [mkBlock ''b1'' 1 ''10:00'' ''09:00'', ?n]"
  let ?a = "addTimeBlockRoute [''s1'' \<mapsto> ?s] ''u1'' ''s1'' ?n"
  have f: "fst ?r = Created ?s" by code_simp
  then have e: "?r = (Created ?s, snd ?r)" by (metis prod.collapse)
  from boundary_validation_is_syntactic [where rt = utcServer and store = Map.empty and user = "''u1''"
      and newId = "''s1''" and body = ?b and s = ?s and store' = "snd ?r"] e
  have l: "list_all blockSchemaOk (timeBlocks ?s)" by blast
  have g: "fst ?a = Ok ?s'" by code_simp
  then have e': "?a = (Ok ?s', snd ?a)" by (metis prod.collapse)
  from boundary_validation_is_syntactic [where store = "[''s1'' \<mapsto> ?s]" and user = "''u1''"
      and ident = "''s1''" and b = ?n and s = ?s' and store' = "snd ?a"] e'
  have l': "blockSchemaOk ?n \<and> list_all blockSchemaOk (timeBlocks ?s')" by blast
  have v1: "createValidators (mkBody [mkBlock ''b1'' 1 ''09:00'' ''10:00'']) = []" by code_simp
  from boundary_validation_is_syntactic [where body = "mkBody [mkBlock ''b1'' 1 ''09:00'' ''10:00'']"] v1
  have "createValidators ((mkBody [mkBlock ''b1'' 1 ''09:00'' ''10:00''])\<lparr>cb_timeBlocks :=
          map (\<lambda>b. b\<lparr>startTime := endTime b, endTime := startTime b\<rparr>)
            (cb_timeBlocks (mkBody [mkBlock ''b1'' 1 ''09:00'' ''10:00'']))\<rparr>) = []" by blast
  then have v2: "createValidators ?b = []" by (simp add: mkBody_def mkBlock_def)
  from f l g l' v1 v2 show ?thesis by blast
qed

text \<open>
  C4, as first stated, fails: the create route accepts and stores a block from 10:00 to
  09:00, and the add-time-block route accepts a block from 10:00 to 10:00.
\<close>

theorem createSchedule_accepts_negative_duration:
  "fst (createSchedule utcServer Map.empty ''u1'' ''s1'' (mkBody [mkBlock ''b1'' 1 ''10:00'' ''09:00'']))
     = Created (mkSchedule [mkBlock ''b1'' 1 ''10:00'' ''09:00''])
   \<and> snd (createSchedule utcServer Map.empty ''u1'' ''s1'' (mkBody [mkBlock ''b1'' 1 ''10:00'' ''09:00''])) ''s1''
     = Some (mkSchedule [mkBlock ''b1'' 1 ''10:00'' ''09:00''])
   \<and> \<not> spec_positiveDuration (mkBlock ''b1'' 1 ''10:00'' ''09:00'')
   \<and> fst (addTimeBlockRoute [''s1'' \<mapsto> mkSchedule [mkBlock ''b1'' 1 ''10:00'' ''09:00'']] ''u1'' ''s1''
             (mkBlock ''b2'' 2 ''10:00'' ''10:00''))
     = Ok (mkSchedule [mkBlock ''b1'' 1 ''10:00'' ''09:00'', mkBlock ''b2'' 2 ''10:00'' ''10:00''])
   \<and> \<not> spec_positiveDuration (mkBlock ''b2'' 2 ''10:00'' ''10:00'')"
  by code_simp

text \<open>
  For a time with a two-digit hour the routes' time value is that of its time of day on
  2000-01-01, on any engine; on V8 a time with a one-digit hour has none.
\<close>

lemma isoTime_two_digit_hours:
  assumes "timePattern t" "length t = 5"
  shows "\<exists>m. spec_timeOfDay t = Some m \<and> 0 \<le> m \<and> m < 1440
             \<and> isoTime rt t = Some (utc_js rt (day2000 + m * 60000))"
  using assms(1)
proof (cases t rule: timePattern_cases)
  case (1 h m1 m2)
  with assms(2) show ?thesis by simp
next
  case (2 h1 h2 m1 m2)
  let ?m = "(10 * digitVal h1 + digitVal h2) * 60 + (10 * digitVal m1 + digitVal m2)"
  have b: "digitVal m1 \<le> 5" "digitVal m2 \<le> 9" "0 \<le> digitVal m1" "0 \<le> digitVal m2"
    "0 \<le> digitVal h1" "0 \<le> digitVal h2"
    using 2 digitVal_bounds [of m1] digitVal_bounds [of m2] digitVal_bounds [of h1]
      digitVal_bounds [of h2] by auto
  then have mm: "10 * digitVal m1 + digitVal m2 \<le> 59" by simp
  have "isoTime rt t = Some (utc_js rt (day2000 + ?m * 60000))"
    using 2 mm by (simp add: Let_def)
  moreover have "spec_timeOfDay t = Some ?m" using 2 assms(1) by simp
  moreover have "0 \<le> ?m" "?m < 1440" using 2 b by auto
  ultimately show ?thesis by blast
qed

lemma v8_one_digit_hour:
  "timePattern t \<Longrightarrow> length t \<noteq> 5 \<Longrightarrow> legacyDate rt = v8Date \<Longrightarrow> isoTime rt t = None"
  by (cases t rule: timePattern.cases) (simp_all add: v8Date_def)

lemma gt_isoTime_steady:
  assumes "steadyDay rt day2000" "timePattern t" "length t = 5" "timePattern u" "length u = 5"
  shows "gt_js (isoTime rt u) (isoTime rt t) = spec_before t u"
proof -
  from isoTime_two_digit_hours [OF assms(2,3), of rt] obtain m where
    m: "spec_timeOfDay t = Some m" "0 \<le> m" "m < 1440" "isoTime rt t = Some (utc_js rt (day2000 + m * 60000))"
    by blast
  from isoTime_two_digit_hours [OF assms(4,5), of rt] obtain n where
    n: "spec_timeOfDay u = Some n" "0 \<le> n" "n < 1440" "isoTime rt u = Some (utc_js rt (day2000 + n * 60000))"
    by blast
  show ?thesis
    using m n utc_js_steady [OF assms(1) m(2,3)] utc_js_steady [OF assms(1) n(2,3)]
    by (simp add: spec_before_def)
qed

text \<open>
  When every block of the body has \<open>startTime < endTime\<close> as the routes read the times, a
  same-day overlap in a validated body is answered with the overlap response, which names
  a day and two overlapping blocks of that day, and the collection stays as it was.
\<close>

lemma createSchedule_rejects_overlap:
  assumes v: "createValidators body = []"
    and ok: "\<forall>z\<in>set (cb_timeBlocks body). positiveDuration (isoTime rt) z"
    and ex: "i < length (cb_timeBlocks body)" "j < length (cb_timeBlocks body)" "i \<noteq> j"
      "dayOfWeek (cb_timeBlocks body ! i) = dayOfWeek (cb_timeBlocks body ! j)"
      "overlap (isoTime rt) (cb_timeBlocks body ! i) (cb_timeBlocks body ! j)"
  shows "\<exists>d x y. createSchedule rt store user newId body = (OverlapError d x y, store)
           \<and> x \<in> set (cb_timeBlocks body) \<and> y \<in> set (cb_timeBlocks body)
           \<and> dayOfWeek x = d \<and> dayOfWeek y = d \<and> overlap (isoTime rt) x y"
proof -
  from scan_finds_overlap [OF ok ex] obtain d x y
    where f: "firstOverlap rt (isoTime rt) (blocksByDay (cb_timeBlocks body)) = Some (d, x, y)"
    by blast
  with v have "createSchedule rt store user newId body = (OverlapError d x y, store)"
    by (simp add: createSchedule_def)
  with scan_reports_overlapping_pair [OF ok f] show ?thesis by blast
qed

lemma updateSchedule_rejects_overlap:
  assumes v: "updateValidators body = []"
    and s: "findOne store ident user = Some s"
    and tb: "ub_timeBlocks body = Some tbs"
    and ok: "\<forall>z\<in>set tbs. positiveDuration (isoTime rt) z"
    and ex: "i < length tbs" "j < length tbs" "i \<noteq> j"
      "dayOfWeek (tbs ! i) = dayOfWeek (tbs ! j)" "overlap (isoTime rt) (tbs ! i) (tbs ! j)"
  shows "\<exists>d x y. updateSchedule rt store user ident body = (OverlapError d x y, store)
           \<and> x \<in> set tbs \<and> y \<in> set tbs \<and> dayOfWeek x = d \<and> dayOfWeek y = d
           \<and> overlap (isoTime rt) x y"
proof -
  from scan_finds_overlap [OF ok ex] obtain d x y
    where f: "firstOverlap rt (isoTime rt) (blocksByDay tbs) = Some (d, x, y)"
    by blast
  with v s tb have "updateSchedule rt store user ident body = (OverlapError d x y, store)"
    by (simp add: updateSchedule_def)
  with scan_reports_overlapping_pair [OF ok f] show ?thesis by blast
qed

lemma updateSchedule_rejected_store_unchanged:
  "fst (updateSchedule rt store user ident body) = OverlapError d x y
     \<Longrightarrow> snd (updateSchedule rt store user ident body) = store"
  by (auto simp: updateSchedule_def Let_def split: if_splits option.splits sum.splits prod.splits)

lemma createSchedule_rejected_store_unchanged:
  "fst (createSchedule rt store user newId body) = OverlapError d x y
     \<Longrightarrow> snd (createSchedule rt store user newId body) = store"
  by (auto simp: createSchedule_def Let_def split: if_splits option.splits sum.splits prod.splits)

text \<open>
  C2. On Node.js the create route misses an overlap between times with one-digit hours: for
  the blocks 9:00-10:00 and 9:30-10:30 on day 1, which pass the validators and overlap, it
  answers 201 and stores the schedule, whose \<open>hasConflicts\<close> is then true.
\<close>

theorem createSchedule_misses_overlap_with_one_digit_hours:
  "fst (createSchedule utcServer Map.empty ''u1'' ''s1''
          (mkBody [mkBlock ''b1'' 1 ''9:00'' ''10:00'', mkBlock ''b2'' 1 ''9:30'' ''10:30'']))
     = Created (mkSchedule [mkBlock ''b1'' 1 ''9:00'' ''10:00'', mkBlock ''b2'' 1 ''9:30'' ''10:30''])
   \<and> snd (createSchedule utcServer Map.empty ''u1'' ''s1''
          (mkBody [mkBlock ''b1'' 1 ''9:00'' ''10:00'', mkBlock ''b2'' 1 ''9:30'' ''10:30''])) ''s1''
     = Some (mkSchedule [mkBlock ''b1'' 1 ''9:00'' ''10:00'', mkBlock ''b2'' 1 ''9:30'' ''10:30''])
   \<and> spec_overlap (mkBlock ''b1'' 1 ''9:00'' ''10:00'') (mkBlock ''b2'' 1 ''9:30'' ''10:30'')
   \<and> hasConflicts utcServer (mkSchedule [mkBlock ''b1'' 1 ''9:00'' ''10:00'', mkBlock ''b2'' 1 ''9:30'' ''10:30''])"
  by code_simp

text \<open>
  In terms of times of day: when 2000-01-01 has no clock change in the server's zone and
  every block of a validated body has two-digit hours and \<open>startTime < endTime\<close>, two
  same-day blocks that overlap make the create route answer with the overlap response,
  naming a day and two blocks of that day that overlap, and the collection stays as it
  was; so does the update route for the supplied blocks.
\<close>

lemma positiveDuration_isoTime:
  assumes "steadyDay rt day2000" "spec_positiveDuration b"
    "length (startTime b) = 5" "length (endTime b) = 5"
  shows "positiveDuration (isoTime rt) b"
  using assms spec_positiveDuration_pattern [of b]
  by (simp add: positiveDuration_def spec_positiveDuration_def gt_isoTime_steady)

lemma overlap_isoTime:
  assumes "steadyDay rt day2000"
    "spec_positiveDuration a" "length (startTime a) = 5" "length (endTime a) = 5"
    "spec_positiveDuration b" "length (startTime b) = 5" "length (endTime b) = 5"
  shows "overlap (isoTime rt) a b = spec_overlap a b"
  using assms spec_positiveDuration_pattern [of a] spec_positiveDuration_pattern [of b]
  by (simp add: overlap_def spec_overlap_def gt_isoTime_steady)

lemma createSchedule_rejects_time_of_day_overlap:
  assumes v: "createValidators body = []"
    and st: "steadyDay rt day2000"
    and ok: "\<forall>z\<in>set (cb_timeBlocks body).
               spec_positiveDuration z \<and> length (startTime z) = 5 \<and> length (endTime z) = 5"
    and ex: "i < length (cb_timeBlocks body)" "j < length (cb_timeBlocks body)" "i \<noteq> j"
      "dayOfWeek (cb_timeBlocks body ! i) = dayOfWeek (cb_timeBlocks body ! j)"
      "spec_overlap (cb_timeBlocks body ! i) (cb_timeBlocks body ! j)"
  shows "\<exists>d x y. createSchedule rt store user newId body = (OverlapError d x y, store)
           \<and> x \<in> set (cb_timeBlocks body) \<and> y \<in> set (cb_timeBlocks body)
           \<and> dayOfWeek x = d \<and> dayOfWeek y = d \<and> spec_overlap x y"
proof -
  let ?ts = "cb_timeBlocks body"
  have pd: "\<forall>z\<in>set ?ts. positiveDuration (isoTime rt) z"
    using st ok by (auto intro: positiveDuration_isoTime)
  have eq: "overlap (isoTime rt) a b = spec_overlap a b" if "a \<in> set ?ts" "b \<in> set ?ts" for a b
    using st ok that by (intro overlap_isoTime) auto
  from ex(1,2,5) have "overlap (isoTime rt) (?ts ! i) (?ts ! j)" by (simp add: eq)
  from createSchedule_rejects_overlap [OF v pd ex(1-4) this, of store user newId] eq
  show ?thesis by blast
qed

lemma updateSchedule_rejects_time_of_day_overlap:
  assumes v: "updateValidators body = []"
    and s: "findOne store ident user = Some s"
    and tb: "ub_timeBlocks body = Some tbs"
    and st: "steadyDay rt day2000"
    and ok: "\<forall>z\<in>set tbs. spec_positiveDuration z \<and> length (startTime z) = 5 \<and> length (endTime z) = 5"
    and ex: "i < length tbs" "j < length tbs" "i \<noteq> j"
      "dayOfWeek (tbs ! i) = dayOfWeek (tbs ! j)" "spec_overlap (tbs ! i) (tbs ! j)"
  shows "\<exists>d x y. updateSchedule rt store user ident body = (OverlapError d x y, store)
           \<and> x \<in> set tbs \<and> y \<in> set tbs \<and> dayOfWeek x = d \<and> dayOfWeek y = d \<and> spec_overlap x y"
proof -
  have pd: "\<forall>z\<in>set tbs. positiveDuration (isoTime rt) z"
    using st ok by (auto intro: positiveDuration_isoTime)
  have eq: "overlap (isoTime rt) a b = spec_overlap a b" if "a \<in> set tbs" "b \<in> set tbs" for a b
    using st ok that by (intro overlap_isoTime) auto
  from ex(1,2,5) have "overlap (isoTime rt) (tbs ! i) (tbs ! j)" by (simp add: eq)
  from updateSchedule_rejects_overlap [OF v s tb pd ex(1-4) this] eq
  show ?thesis by blast
qed

text \<open>
  The create route answers the overlap of 09:00-10:00 and 09:30-10:30 on day 1 with the 400
  response that names day 1 and the two blocks, and stores nothing; it accepts the adjacent
  blocks 09:00-10:00 and 10:00-11:00.
\<close>

lemma createSchedule_examples:
  "fst (createSchedule utcServer Map.empty ''u1'' ''s1''
          (mkBody [mkBlock ''b1'' 1 ''09:00'' ''10:00'', mkBlock ''b2'' 1 ''09:30'' ''10:30'']))
     = OverlapError 1 (mkBlock ''b1'' 1 ''09:00'' ''10:00'') (mkBlock ''b2'' 1 ''09:30'' ''10:30'')"
  "snd (createSchedule utcServer Map.empty ''u1'' ''s1''
          (mkBody [mkBlock ''b1'' 1 ''09:00'' ''10:00'', mkBlock ''b2'' 1 ''09:30'' ''10:30''])) ''s1''
     = None"
  "fst (createSchedule utcServer Map.empty ''u1'' ''s1''
          (mkBody [mkBlock ''b1'' 1 ''09:00'' ''10:00'', mkBlock ''b2'' 1 ''10:00'' ''11:00'']))
     = Created (mkSchedule [mkBlock ''b1'' 1 ''09:00'' ''10:00'', mkBlock ''b2'' 1 ''10:00'' ''11:00''])"
  by code_simp+

text \<open>
  With a one-digit hour among two-digit ones the comparator is not consistent and the order
  of the day is V8's: the blocks 12:00-12:30, 11:00-11:30, 8:00-8:30 and 10:00-11:30 are scanned
  in the order 10:00, 11:00, 12:00, 8:00, and the overlap of 10:00-11:30 with 11:00-11:30 is
  found.
\<close>

lemma createSchedule_inconsistent_comparator:
  "map startTime (sort_js (sortInconsistent utcServer) (startCmp (isoTime utcServer))
       [mkBlock ''a'' 1 ''12:00'' ''12:30'', mkBlock ''b'' 1 ''11:00'' ''11:30'',
        mkBlock ''c'' 1 ''8:00'' ''8:30'', mkBlock ''d'' 1 ''10:00'' ''11:30''])
     = [''10:00'', ''11:00'', ''12:00'', ''8:00'']"
  "fst (createSchedule utcServer Map.empty ''u1'' ''s1''
          (mkBody [mkBlock ''a'' 1 ''12:00'' ''12:30'', mkBlock ''b'' 1 ''11:00'' ''11:30'',
                   mkBlock ''c'' 1 ''8:00'' ''8:30'', mkBlock ''d'' 1 ''10:00'' ''11:30'']))
     = OverlapError 1 (mkBlock ''d'' 1 ''10:00'' ''11:30'') (mkBlock ''b'' 1 ''11:00'' ''11:30'')"
  by code_simp+

text \<open>
  The add-time-block route never gives the overlap response; on a well-formed collection it
  appends every block that passes the field validation (before and after the setters).
\<close>

lemma addTimeBlockRoute_never_overlap_error:
  "fst (addTimeBlockRoute store user ident b) \<noteq> OverlapError d x y"
  by (auto simp: addTimeBlockRoute_def Let_def split: option.splits sum.splits prod.splits)

lemma addTimeBlockRoute_accepts:
  assumes "storeOk store" "findOne store ident user = Some s" "blockSchemaOk (castBlock b)" "blockSchemaOk b"
  shows "addTimeBlockRoute store user ident b
     = (Ok (s\<lparr>timeBlocks := timeBlocks s @ [castBlock b]\<rparr>),
        store(ident \<mapsto> s\<lparr>timeBlocks := timeBlocks s @ [castBlock b]\<rparr>))"
proof -
  from assms(2) have "store ident = Some s"
    by (auto simp: findOne_def split: option.splits if_splits)
  with assms(1) have "schemaOk s" "sched_id s = ident" by (auto simp: storeOk_def)
  then have "save store (s\<lparr>timeBlocks := timeBlocks s @ [castBlock b]\<rparr>)
     = Inr (s\<lparr>timeBlocks := timeBlocks s @ [castBlock b]\<rparr>,
            store(ident \<mapsto> s\<lparr>timeBlocks := timeBlocks s @ [castBlock b]\<rparr>))"
    using assms(3) by (simp add: save_def schemaOk_def)
  with assms(2,4) show ?thesis
    by (simp add: addTimeBlockRoute_def addTimeBlock_def addBlockValidators_empty_iff)
qed

text \<open>
  C3. The add-time-block route runs no overlap scan: to a schedule with a block 09:00-10:00
  on day 1 it appends the overlapping block 09:30-10:30 of the same day and answers 200;
  the stored schedule then has conflicts.
\<close>

theorem addTimeBlockRoute_appends_overlapping_block:
  "fst (addTimeBlockRoute [''s1'' \<mapsto> mkSchedule [mkBlock ''b1'' 1 ''09:00'' ''10:00'']] ''u1'' ''s1''
          (mkBlock ''b2'' 1 ''09:30'' ''10:30''))
     = Ok (mkSchedule [mkBlock ''b1'' 1 ''09:00'' ''10:00'', mkBlock ''b2'' 1 ''09:30'' ''10:30''])
   \<and> snd (addTimeBlockRoute [''s1'' \<mapsto> mkSchedule [mkBlock ''b1'' 1 ''09:00'' ''10:00'']] ''u1'' ''s1''
          (mkBlock ''b2'' 1 ''09:30'' ''10:30'')) ''s1''
     = Some (mkSchedule [mkBlock ''b1'' 1 ''09:00'' ''10:00'', mkBlock ''b2'' 1 ''09:30'' ''10:30''])
   \<and> dayOfWeek (mkBlock ''b1'' 1 ''09:00'' ''10:00'') = dayOfWeek (mkBlock ''b2'' 1 ''09:30'' ''10:30'')
   \<and> spec_overlap (mkBlock ''b1'' 1 ''09:00'' ''10:00'') (mkBlock ''b2'' 1 ''09:30'' ''10:30'')
   \<and> hasConflicts utcServer (mkSchedule [mkBlock ''b1'' 1 ''09:00'' ''10:00'', mkBlock ''b2'' 1 ''09:30'' ''10:30''])"
  by code_simp

text \<open>
  C5. On Node.js the update route misses an overlap between times with one-digit hours: an update
  whose \<open>timeBlocks\<close> are 9:00-10:00 and 9:30-10:30 on day 1 is answered 200 and replaces the
  stored time blocks.
\<close>

theorem updateSchedule_misses_overlap_with_one_digit_hours:
  "fst (updateSchedule utcServer [''s1'' \<mapsto> mkSchedule [mkBlock ''b0'' 3 ''14:00'' ''15:00'']] ''u1'' ''s1''
          (mkUpdate None None (Some [mkBlock ''b1'' 1 ''9:00'' ''10:00'', mkBlock ''b2'' 1 ''9:30'' ''10:30''])))
     = Ok (mkSchedule [mkBlock ''b1'' 1 ''9:00'' ''10:00'', mkBlock ''b2'' 1 ''9:30'' ''10:30''])
   \<and> snd (updateSchedule utcServer [''s1'' \<mapsto> mkSchedule [mkBlock ''b0'' 3 ''14:00'' ''15:00'']] ''u1'' ''s1''
          (mkUpdate None None (Some [mkBlock ''b1'' 1 ''9:00'' ''10:00'', mkBlock ''b2'' 1 ''9:30'' ''10:30'']))) ''s1''
     = Some (mkSchedule [mkBlock ''b1'' 1 ''9:00'' ''10:00'', mkBlock ''b2'' 1 ''9:30'' ''10:30''])
   \<and> timeBlocks (mkSchedule [mkBlock ''b1'' 1 ''9:00'' ''10:00'', mkBlock ''b2'' 1 ''9:30'' ''10:30''])
     \<noteq> timeBlocks (mkSchedule [mkBlock ''b0'' 3 ''14:00'' ''15:00''])
   \<and> dayOfWeek (mkBlock ''b1'' 1 ''9:00'' ''10:00'') = dayOfWeek (mkBlock ''b2'' 1 ''9:30'' ''10:30'')
   \<and> spec_overlap (mkBlock ''b1'' 1 ''9:00'' ''10:00'') (mkBlock ''b2'' 1 ''9:30'' ''10:30'')"
  by code_simp

text \<open>
  C10. An update that supplies no \<open>timeBlocks\<close> never gets the overlap response, in any
  runtime; when it passes the validators, finds the schedule and passes the schema's update
  validation it is accepted and sets the supplied fields, keeping the stored time blocks
  whether or not they overlap.
\<close>

theorem updateSchedule_without_timeBlocks:
  assumes "ub_timeBlocks body = None"
  shows "(\<forall>day x y. fst (updateSchedule rt store user ident body) \<noteq> OverlapError day x y) \<and>
         (\<forall>s. updateValidators body = [] \<and> findOne store ident user = Some s \<and> setOk body \<longrightarrow>
              updateSchedule rt store user ident body
                = (Ok (applySet s body), store(ident \<mapsto> applySet s body))
              \<and> timeBlocks (applySet s body) = timeBlocks s)"
proof -
  have a: "fst (updateSchedule rt store user ident body) \<noteq> OverlapError day x y" for day x y
    using assms
    by (auto simp: updateSchedule_def Let_def split: option.splits sum.splits prod.splits)
  have b: "updateSchedule rt store user ident body
             = (Ok (applySet s body), store(ident \<mapsto> applySet s body))
           \<and> timeBlocks (applySet s body) = timeBlocks s"
    if "updateValidators body = []" "findOne store ident user = Some s" "setOk body" for s
  proof -
    from that(2) have "store ident = Some s"
      by (auto simp: findOne_def split: option.splits if_splits)
    with that assms show ?thesis
      by (simp add: updateSchedule_def findByIdAndUpdate_def applySet_def)
  qed
  from a b show ?thesis by blast
qed

theorem updateSchedule_without_timeBlocks_witness:
  "ub_timeBlocks (mkUpdate (Some ''New'') (Some False) None) = None
   \<and> hasConflicts utcServer (mkSchedule [mkBlock ''b1'' 1 ''09:00'' ''10:00'', mkBlock ''b2'' 1 ''09:30'' ''10:30''])
   \<and> updateSchedule utcServer
        [''s1'' \<mapsto> mkSchedule [mkBlock ''b1'' 1 ''09:00'' ''10:00'', mkBlock ''b2'' 1 ''09:30'' ''10:30'']]
        ''u1'' ''s1'' (mkUpdate (Some ''New'') (Some False) None)
      = (Ok (applySet (mkSchedule [mkBlock ''b1'' 1 ''09:00'' ''10:00'', mkBlock ''b2'' 1 ''09:30'' ''10:30''])
                      (mkUpdate (Some ''New'') (Some False) None)),
         [''s1'' \<mapsto> applySet (mkSchedule [mkBlock ''b1'' 1 ''09:00'' ''10:00'', mkBlock ''b2'' 1 ''09:30'' ''10:30''])
                      (mkUpdate (Some ''New'') (Some False) None)])
   \<and> timeBlocks (applySet (mkSchedule [mkBlock ''b1'' 1 ''09:00'' ''10:00'', mkBlock ''b2'' 1 ''09:30'' ''10:30''])
                      (mkUpdate (Some ''New'') (Some False) None))
      = [mkBlock ''b1'' 1 ''09:00'' ''10:00'', mkBlock ''b2'' 1 ''09:30'' ''10:30'']
   \<and> name (applySet (mkSchedule [mkBlock ''b1'' 1 ''09:00'' ''10:00'', mkBlock ''b2'' 1 ''09:30'' ''10:30''])
                      (mkUpdate (Some ''New'') (Some False) None)) = ''New''"
proof -
  let ?s = "mkSchedule [mkBlock ''b1'' 1 ''09:00'' ''10:00'', mkBlock ''b2'' 1 ''09:30'' ''10:30'']"
  let ?u = "mkUpdate (Some ''New'') (Some False) None"
  have h: "ub_timeBlocks ?u = None" by (simp add: mkUpdate_def)
  have c: "hasConflicts utcServer ?s" by code_simp
  have v: "updateValidators ?u = []" by code_simp
  have f: "findOne [''s1'' \<mapsto> ?s] ''s1'' ''u1'' = Some ?s" by (simp add: findOne_def mkSchedule_def)
  have o: "setOk ?u" by code_simp
  have t: "timeBlocks ?s = [mkBlock ''b1'' 1 ''09:00'' ''10:00'', mkBlock ''b2'' 1 ''09:30'' ''10:30'']"
    by (simp add: mkSchedule_def)
  have n: "name (applySet ?s ?u) = ''New''" by code_simp
  from updateSchedule_without_timeBlocks [OF h, of utcServer "[''s1'' \<mapsto> ?s]" "''u1''" "''s1''"] v f o
  have "updateSchedule utcServer [''s1'' \<mapsto> ?s] ''u1'' ''s1'' ?u
          = (Ok (applySet ?s ?u), [''s1'' \<mapsto> ?s](''s1'' \<mapsto> applySet ?s ?u))
        \<and> timeBlocks (applySet ?s ?u) = timeBlocks ?s"
    by blast
  with h c t n show ?thesis by simp
qed

section \<open>The routes keep the collection well formed\<close>

lemma storeOk_update: "storeOk store \<Longrightarrow> schemaOk s \<Longrightarrow> storeOk (store(sched_id s \<mapsto> s))"
  by (simp add: storeOk_def)

lemma save_storeOk: "storeOk store \<Longrightarrow> save store s = Inr (s', store') \<Longrightarrow> storeOk store'"
  by (auto simp: save_def storeOk_update split: if_splits)

lemma findOne_Some: "findOne store ident user = Some s \<Longrightarrow> store ident = Some s"
  by (auto simp: findOne_def split: option.splits if_splits)

lemma schemaOk_applySet: "schemaOk s \<Longrightarrow> setOk body \<Longrightarrow> schemaOk (applySet s body)"
  by (auto simp: schemaOk_def setOk_def applySet_def split: option.splits)

lemma createSchedule_storeOk:
  "storeOk store \<Longrightarrow> storeOk (snd (createSchedule rt store user newId body))"
  by (auto simp: createSchedule_def Let_def dest: save_storeOk split: option.splits sum.splits prod.splits)

lemma updateSchedule_storeOk:
  assumes "storeOk store"
  shows "storeOk (snd (updateSchedule rt store user ident body))"
proof -
  have "storeOk (store(ident \<mapsto> applySet s body))" if "store ident = Some s" "setOk body" for s
  proof -
    from assms that(1) have "schemaOk s" "sched_id s = ident" by (auto simp: storeOk_def)
    then have "schemaOk (applySet s body)" "sched_id (applySet s body) = ident"
      using that(2) by (simp_all add: schemaOk_applySet) (simp add: applySet_def)
    with assms storeOk_update [of store "applySet s body"] show ?thesis by simp
  qed
  with assms show ?thesis
    by (auto simp: updateSchedule_def findByIdAndUpdate_def Let_def
             dest: findOne_Some split: option.splits sum.splits prod.splits if_splits)
qed

lemma methods_storeOk:
  assumes "storeOk store"
  shows "storeOk (snd (toggleRoute store user ident))"
    and "storeOk (snd (addTimeBlockRoute store user ident b))"
    and "storeOk (snd (removeTimeBlockRoute store user ident blockId))"
    and "storeOk (snd (conflictsRoute rt store user ident))"
  using assms
  by (auto simp: toggleRoute_def toggleActive_def addTimeBlockRoute_def addTimeBlock_def
        removeTimeBlockRoute_def removeTimeBlock_def conflictsRoute_def Let_def
      dest: save_storeOk split: option.splits sum.splits prod.splits)

end
